theory Spec2Isabelle
  imports Complex_Main
begin

section \<open>Game constants\<close>

text \<open>
  The module-level configuration of \<^verbatim>\<open>space_shooter.py\<close>. Python integers are
  unbounded, so they are \<open>int\<close>; pixel coordinates of pygame's \<^verbatim>\<open>FRect\<close> and the
  frame's \<^verbatim>\<open>dt\<close> are floating point in the source and are read as \<open>real\<close> here.
\<close>

definition WINDOW_WIDTH :: int where "WINDOW_WIDTH = 1280"
definition WINDOW_HEIGHT :: int where "WINDOW_HEIGHT = 720"

definition PLAYER_SPEED :: int where "PLAYER_SPEED = 600"
definition INITIAL_LASER_COOLDOWN :: int where "INITIAL_LASER_COOLDOWN = 400"

definition SURVIVAL_POINTS_PER_SECOND :: int where "SURVIVAL_POINTS_PER_SECOND = 10"
definition METEOR_DESTRUCTION_POINTS :: int where "METEOR_DESTRUCTION_POINTS = 20"

definition LEVEL_THRESHOLDS :: "int list" where
  "LEVEL_THRESHOLDS = [0, 300, 600, 900, 1200, 1500, 1800, 2100]"
definition MAX_LEVEL :: int where "MAX_LEVEL = int (length LEVEL_THRESHOLDS)"

definition BASE_METEOR_SPAWN_RATE :: int where "BASE_METEOR_SPAWN_RATE = 700"
definition METEOR_SPAWN_RATE_DECREASE :: int where "METEOR_SPAWN_RATE_DECREASE = 100"
definition MIN_METEOR_SPAWN_RATE :: int where "MIN_METEOR_SPAWN_RATE = 0"

definition LASER_COOLDOWN_INCREASE_LEVEL :: int where "LASER_COOLDOWN_INCREASE_LEVEL = 3"
definition LASER_COOLDOWN_INCREASE :: int where "LASER_COOLDOWN_INCREASE = 100"
definition MAX_LASER_COOLDOWN :: int where "MAX_LASER_COOLDOWN = 800"

definition INITIAL_LIVES :: int where "INITIAL_LIVES = 3"

text \<open>\<^verbatim>\<open>explosion_frames\<close> is built from \<^verbatim>\<open>range(21)\<close>.\<close>

definition EXPLOSION_FRAME_COUNT :: int where "EXPLOSION_FRAME_COUNT = 21"


section \<open>Rectangles\<close>

text \<open>
  pygame's \<^verbatim>\<open>FRect\<close>: left edge, top edge, width, height. \<^verbatim>\<open>Surface.get_frect(anchor=pos)\<close>
  makes the rectangle of the surface's size with the named anchor at \<open>pos\<close>.

  An \<^verbatim>\<open>FRect\<close> holds 32-bit floats: a coordinate assigned to it is kept as the float
  nearest to it. Every function that writes a coordinate takes that rounding as its first
  argument \<open>st\<close> and stores \<open>st x\<close> for a computed \<open>x\<close>. Only what a rectangle holds is
  rounded: the sum or difference formed when an anchor is read or set is taken as exact.
  Image sizes are integers, which a float holds as they are.
\<close>

record frect =
  fx :: real
  fy :: real
  fw :: real
  fh :: real

definition centerx :: "frect \<Rightarrow> real" where
  "centerx r = fx r + fw r / 2"

definition centery :: "frect \<Rightarrow> real" where
  "centery r = fy r + fh r / 2"

definition center :: "frect \<Rightarrow> real \<times> real" where
  "center r = (centerx r, centery r)"

definition midtop :: "frect \<Rightarrow> real \<times> real" where
  "midtop r = (centerx r, fy r)"

definition right_edge :: "frect \<Rightarrow> real" where
  "right_edge r = fx r + fw r"

definition bottom :: "frect \<Rightarrow> real" where
  "bottom r = fy r + fh r"

definition set_centerx :: "(real \<Rightarrow> real) \<Rightarrow> frect \<Rightarrow> real \<Rightarrow> frect" where
  "set_centerx st r c = r\<lparr>fx := st (c - fw r / 2)\<rparr>"

definition set_centery :: "(real \<Rightarrow> real) \<Rightarrow> frect \<Rightarrow> real \<Rightarrow> frect" where
  "set_centery st r c = r\<lparr>fy := st (c - fh r / 2)\<rparr>"

definition set_center :: "(real \<Rightarrow> real) \<Rightarrow> frect \<Rightarrow> real \<times> real \<Rightarrow> frect" where
  "set_center st r c = r\<lparr>fx := st (fst c - fw r / 2), fy := st (snd c - fh r / 2)\<rparr>"

definition get_frect_center :: "(real \<Rightarrow> real) \<Rightarrow> int \<times> int \<Rightarrow> real \<times> real \<Rightarrow> frect" where
  "get_frect_center st sz c =
     \<lparr>fx = st (fst c - real_of_int (fst sz) / 2), fy = st (snd c - real_of_int (snd sz) / 2),
      fw = real_of_int (fst sz), fh = real_of_int (snd sz)\<rparr>"

definition get_frect_midbottom :: "(real \<Rightarrow> real) \<Rightarrow> int \<times> int \<Rightarrow> real \<times> real \<Rightarrow> frect" where
  "get_frect_midbottom st sz p =
     \<lparr>fx = st (fst p - real_of_int (fst sz) / 2), fy = st (snd p - real_of_int (snd sz)),
      fw = real_of_int (fst sz), fh = real_of_int (snd sz)\<rparr>"

text \<open>
  \<^verbatim>\<open>Rect.clamp_ip(area)\<close>: moved inside \<open>area\<close>; centred on an axis where it is too large
  to fit.
\<close>

definition clamp_axis :: "(real \<Rightarrow> real) \<Rightarrow> real \<Rightarrow> real \<Rightarrow> real \<Rightarrow> real \<Rightarrow> real" where
  "clamp_axis st x w ax aw =
     (if w \<ge> aw then st (ax + aw / 2 - w / 2)
      else if x < ax then ax
      else if x + w > ax + aw then st (ax + aw - w)
      else x)"

definition clamp_ip :: "(real \<Rightarrow> real) \<Rightarrow> frect \<Rightarrow> frect \<Rightarrow> frect" where
  "clamp_ip st r area =
     r\<lparr>fx := clamp_axis st (fx r) (fw r) (fx area) (fw area),
       fy := clamp_axis st (fy r) (fh r) (fy area) (fh area)\<rparr>"


section \<open>Sprites\<close>

record Player =
  p_rect :: frect
  p_direction :: "real \<times> real"
  p_speed :: int
  can_shoot :: bool
  laser_cooldown :: int
  laser_shoot_time :: int
  lives :: int
  alive :: bool

record Laser =
  l_rect :: frect
  l_speed :: int

record Meteor =
  m_rect :: frect
  m_speed :: real
  m_direction :: "real \<times> real"
  rotation_speed :: int
  rotation :: real
  creation_time :: int

record AnimatedExplosion =
  e_index :: real
  e_rect :: frect
  animation_speed :: int

text \<open>
  What the program takes from pygame and from its asset files, none of which is part of
  the repository: the pixel sizes of the loaded images, the size of the meteor image after
  \<^verbatim>\<open>pygame.transform.rotozoom\<close> by an angle, the pixel-mask overlap test
  \<^verbatim>\<open>pygame.sprite.collide_mask\<close> (it reads each sprite's rectangle and mask; a mask is
  determined by the sprite's image, hence by the fields below), and the rounding
  \<open>frect_store\<close> of a coordinate written to an \<^verbatim>\<open>FRect\<close>. Python's own arithmetic on the
  way to a stored coordinate is read as exact.
\<close>

record assets =
  player_surf_size :: "int \<times> int"
  laser_surf_size :: "int \<times> int"
  star_surf_size :: "int \<times> int"
  meteor_surf_size :: "int \<times> int"
  explosion_frame_size :: "int \<times> int"
  rotozoom_size :: "real \<Rightarrow> int \<times> int"
  collide_mask_player :: "Player \<Rightarrow> Meteor \<Rightarrow> bool"
  collide_mask_laser :: "Laser \<Rightarrow> Meteor \<Rightarrow> bool"
  frect_store :: "real \<Rightarrow> real"

datatype key = K_a | K_d | K_s | K_w | K_SPACE | K_ESCAPE

datatype event = QUIT | OTHER_EVENT

text \<open>
  Everything one iteration of the main loop reads from outside: the milliseconds returned
  by \<^verbatim>\<open>clock.tick(FPS)\<close>, the readings of \<^verbatim>\<open>pygame.time.get_ticks()\<close> (one field
  per call site; the meteors updated in one frame share \<open>ticks_update\<close>), the event queue,
  the keyboard, and the draws of \<^verbatim>\<open>random\<close> for a meteor spawned in this frame.
\<close>

record frame_input =
  tick :: int
  now :: int
  events :: "event list"
  keys_pressed :: "key \<Rightarrow> bool"
  keys_just_pressed :: "key \<Rightarrow> bool"
  ticks_shoot :: int
  ticks_timer :: int
  ticks_spawn :: int
  ticks_update :: int
  rand_x :: int
  rand_y :: int
  rand_drift :: real
  rand_rotation_speed :: int

text \<open>\<^verbatim>\<open>random.randint(a, b)\<close> returns some \<open>r\<close> with \<open>a \<le> r \<le> b\<close>.\<close>

definition randint :: "int \<Rightarrow> int \<Rightarrow> int \<Rightarrow> bool" where
  "randint a b r \<longleftrightarrow> a \<le> r \<and> r \<le> b"


subsection \<open>Player\<close>

definition Player_init :: "assets \<Rightarrow> Player" where
  "Player_init a =
     \<lparr>p_rect = get_frect_center (frect_store a) (player_surf_size a)
                 (real_of_int (WINDOW_WIDTH div 2), real_of_int (WINDOW_HEIGHT div 2)),
      p_direction = (0, 0),
      p_speed = PLAYER_SPEED,
      can_shoot = True,
      laser_cooldown = INITIAL_LASER_COOLDOWN,
      laser_shoot_time = 0,
      lives = INITIAL_LIVES,
      alive = True\<rparr>"

definition length_squared :: "real \<times> real \<Rightarrow> real" where
  "length_squared v = fst v * fst v + snd v * snd v"

definition normalize :: "real \<times> real \<Rightarrow> real \<times> real" where
  "normalize v = (fst v / sqrt (length_squared v), snd v / sqrt (length_squared v))"

definition Player_input :: "(key \<Rightarrow> bool) \<Rightarrow> Player \<Rightarrow> Player" where
  "Player_input keys p =
     (let x = real_of_int (of_bool (keys K_d) - of_bool (keys K_a));
          y = real_of_int (of_bool (keys K_s) - of_bool (keys K_w));
          d = (x, y)
      in p\<lparr>p_direction := (if length_squared d > 0 then normalize d else d)\<rparr>)"

definition Player_move :: "assets \<Rightarrow> real \<Rightarrow> Player \<Rightarrow> Player" where
  "Player_move a dt p =
     (let r1 = set_centerx (frect_store a) (p_rect p)
                 (centerx (p_rect p) + fst (p_direction p) * real_of_int (p_speed p) * dt);
          r2 = set_centery (frect_store a) r1
                 (centery r1 + snd (p_direction p) * real_of_int (p_speed p) * dt)
      in p\<lparr>p_rect := clamp_ip (frect_store a) r2
            \<lparr>fx = 0, fy = 0, fw = real_of_int WINDOW_WIDTH, fh = real_of_int WINDOW_HEIGHT\<rparr>\<rparr>)"

definition Laser_init :: "assets \<Rightarrow> real \<times> real \<Rightarrow> Laser" where
  "Laser_init a pos =
     \<lparr>l_rect = get_frect_midbottom (frect_store a) (laser_surf_size a) pos, l_speed = 700\<rparr>"

definition shoot_laser :: "assets \<Rightarrow> (key \<Rightarrow> bool) \<Rightarrow> int \<Rightarrow> Player \<times> Laser list \<Rightarrow> Player \<times> Laser list" where
  "shoot_laser a recent_keys ticks pl =
     (let p = fst pl; ls = snd pl in
      if recent_keys K_SPACE \<and> can_shoot p
      then (p\<lparr>can_shoot := False, laser_shoot_time := ticks\<rparr>,
            ls @ [Laser_init a (midtop (p_rect p))])
      else (p, ls))"

definition laser_timer :: "int \<Rightarrow> Player \<Rightarrow> Player" where
  "laser_timer current_time p =
     (if \<not> can_shoot p
      then (if current_time - laser_shoot_time p \<ge> laser_cooldown p
            then p\<lparr>can_shoot := True\<rparr> else p)
      else p)"

definition take_damage :: "Player \<Rightarrow> Player" where
  "take_damage p =
     (let p1 = p\<lparr>lives := lives p - 1\<rparr>
      in if lives p1 \<le> 0 then p1\<lparr>alive := False\<rparr> else p1)"

definition update_laser_cooldown :: "Player \<Rightarrow> int \<Rightarrow> Player" where
  "update_laser_cooldown p current_level =
     (if current_level \<ge> LASER_COOLDOWN_INCREASE_LEVEL
      then (let level_factor = current_level - LASER_COOLDOWN_INCREASE_LEVEL + 1;
                new_cooldown = INITIAL_LASER_COOLDOWN + (level_factor * LASER_COOLDOWN_INCREASE)
            in p\<lparr>laser_cooldown := min new_cooldown MAX_LASER_COOLDOWN\<rparr>)
      else p)"

definition Player_update :: "assets \<Rightarrow> frame_input \<Rightarrow> real \<Rightarrow> int \<Rightarrow> Player \<times> Laser list \<Rightarrow> Player \<times> Laser list" where
  "Player_update a inp dt current_level pl =
     (let p1 = Player_input (keys_pressed inp) (fst pl);
          p2 = Player_move a dt p1;
          pl3 = shoot_laser a (keys_just_pressed inp) (ticks_shoot inp) (p2, snd pl);
          p4 = laser_timer (ticks_timer inp) (fst pl3);
          p5 = update_laser_cooldown p4 current_level
      in (p5, snd pl3))"


subsection \<open>Star, Laser, Meteor, AnimatedExplosion\<close>

definition Star_init :: "assets \<Rightarrow> int \<times> int \<Rightarrow> frect" where
  "Star_init a pos =
     get_frect_center (frect_store a) (star_surf_size a) (real_of_int (fst pos), real_of_int (snd pos))"

text \<open>An \<^verbatim>\<open>update\<close> that calls \<^verbatim>\<open>self.kill()\<close> returns \<open>None\<close>: the sprite leaves every group.\<close>

definition Laser_update :: "assets \<Rightarrow> real \<Rightarrow> Laser \<Rightarrow> Laser option" where
  "Laser_update a dt l =
     (let l1 = l\<lparr>l_rect := set_centery (frect_store a) (l_rect l)
                            (centery (l_rect l) - real_of_int (l_speed l) * dt)\<rparr>
      in if bottom (l_rect l1) < 0 then None else Some l1)"

definition Meteor_init :: "assets \<Rightarrow> real \<Rightarrow> int \<Rightarrow> int \<Rightarrow> real \<Rightarrow> int \<Rightarrow> int \<Rightarrow> Meteor" where
  "Meteor_init a speed_multiplier x y drift rot ticks =
     \<lparr>m_rect = get_frect_center (frect_store a) (meteor_surf_size a) (real_of_int x, real_of_int y),
      m_speed = 500 * speed_multiplier,
      m_direction = (drift, 1),
      rotation_speed = rot,
      rotation = 0,
      creation_time = ticks\<rparr>"

text \<open>The draws a spawn can receive: the ranges of the four \<^verbatim>\<open>random\<close> calls of \<^verbatim>\<open>Meteor.__init__\<close>.\<close>

definition meteor_draws :: "assets \<Rightarrow> int \<Rightarrow> int \<Rightarrow> real \<Rightarrow> int \<Rightarrow> bool" where
  "meteor_draws a x y drift rot \<longleftrightarrow>
     randint 0 (WINDOW_WIDTH - fst (meteor_surf_size a)) x \<and> randint (- 200) (- 50) y \<and>
     - (1 / 2) \<le> drift \<and> drift \<le> 1 / 2 \<and> randint 50 300 rot"

text \<open>
  \<^verbatim>\<open>Meteor.update\<close> in two parts: the movement and rotation, which leave the rectangle of
  the rotated image centred where the moved rectangle was, and the test that kills.
\<close>

definition Meteor_moved :: "assets \<Rightarrow> real \<Rightarrow> Meteor \<Rightarrow> Meteor" where
  "Meteor_moved a dt m =
     (let c = center (m_rect m);
          r1 = set_center (frect_store a) (m_rect m)
                 (fst c + fst (m_direction m) * m_speed m * dt,
                  snd c + snd (m_direction m) * m_speed m * dt);
          rot1 = rotation m + real_of_int (rotation_speed m) * dt;
          old_center = center r1;
          r2 = get_frect_center (frect_store a) (rotozoom_size a rot1) old_center
      in m\<lparr>m_rect := r2, rotation := rot1\<rparr>)"

definition Meteor_update :: "assets \<Rightarrow> real \<Rightarrow> int \<Rightarrow> Meteor \<Rightarrow> Meteor option" where
  "Meteor_update a dt current_time m =
     (let m1 = Meteor_moved a dt m
      in if current_time - creation_time m1 \<ge> 5000 \<or> fy (m_rect m1) > real_of_int (WINDOW_HEIGHT + 100)
         then None else Some m1)"

definition AnimatedExplosion_init :: "assets \<Rightarrow> real \<times> real \<Rightarrow> AnimatedExplosion" where
  "AnimatedExplosion_init a pos =
     \<lparr>e_index = 0, e_rect = get_frect_center (frect_store a) (explosion_frame_size a) pos,
      animation_speed = 30\<rparr>"

definition AnimatedExplosion_update :: "real \<Rightarrow> AnimatedExplosion \<Rightarrow> AnimatedExplosion option" where
  "AnimatedExplosion_update dt e =
     (let e1 = e\<lparr>e_index := e_index e + real_of_int (animation_speed e) * dt\<rparr>
      in if e_index e1 < real_of_int EXPLOSION_FRAME_COUNT then Some e1 else None)"


section \<open>Game management functions\<close>

text \<open>
  \<^verbatim>\<open>get_current_level\<close> scans \<^verbatim>\<open>enumerate(LEVEL_THRESHOLDS)\<close> and returns at the first
  threshold above the score. The scan is written over any threshold list; the program's
  function is the scan of its constant list.
\<close>

fun first_above :: "(nat \<times> int) list \<Rightarrow> int \<Rightarrow> nat option" where
  "first_above [] score = None"
| "first_above ((i, threshold) # rest) score =
     (if score < threshold then Some i else first_above rest score)"

definition level_for :: "int list \<Rightarrow> int \<Rightarrow> nat" where
  "level_for T score =
     (case first_above (enumerate 0 T) score of Some i \<Rightarrow> i | None \<Rightarrow> length T)"

definition get_current_level :: "int \<Rightarrow> int" where
  "get_current_level score = int (level_for LEVEL_THRESHOLDS score)"

definition calculate_meteor_spawn_time :: "int \<Rightarrow> int" where
  "calculate_meteor_spawn_time level =
     (let spawn_time = BASE_METEOR_SPAWN_RATE - (level * METEOR_SPAWN_RATE_DECREASE)
      in max spawn_time MIN_METEOR_SPAWN_RATE)"

definition spawn_stars :: "assets \<Rightarrow> nat \<Rightarrow> (int \<times> int) list \<Rightarrow> frect list" where
  "spawn_stars a n draws = map (Star_init a) (take n draws)"


section \<open>The state of a run\<close>

text \<open>
  The locals of \<^verbatim>\<open>run_game\<close> and the sprite groups. \<^verbatim>\<open>all_sprites\<close> holds the stars,
  the lasers, the meteors and the explosions; every laser is also in \<^verbatim>\<open>laser_sprites\<close>
  and every meteor in \<^verbatim>\<open>meteor_sprites\<close>, and \<^verbatim>\<open>kill()\<close> removes a sprite from all its
  groups, so one list per kind carries both memberships. Lists are in insertion order,
  the order in which a group is iterated.
\<close>

record run_state =
  player :: Player
  stars :: "frect list"
  laser_sprites :: "Laser list"
  meteor_sprites :: "Meteor list"
  explosions :: "AnimatedExplosion list"
  score :: int
  level :: int
  last_score_update :: int
  meteor_spawn_rate :: int
  meteor_timer :: int
  running :: bool
  game_over :: bool

definition run_game_init :: "assets \<Rightarrow> (int \<times> int) list \<Rightarrow> int \<Rightarrow> int \<Rightarrow> run_state" where
  "run_game_init a star_draws t0 t1 =
     \<lparr>player = Player_init a,
      stars = spawn_stars a 20 star_draws,
      laser_sprites = [],
      meteor_sprites = [],
      explosions = [],
      score = 0,
      level = 1,
      last_score_update = t0,
      meteor_spawn_rate = calculate_meteor_spawn_time 1,
      meteor_timer = t1,
      running = True,
      game_over = False\<rparr>"


subsection \<open>Collisions\<close>

text \<open>
  \<^verbatim>\<open>pygame.sprite.spritecollide(sprite, group, True, collided)\<close>: every sprite of the group
  for which \<open>collided\<close> holds is killed and returned. The result is the list of the sprites
  hit and the group that remains.
\<close>

definition spritecollide :: "('s \<Rightarrow> Meteor \<Rightarrow> bool) \<Rightarrow> 's \<Rightarrow> Meteor list \<Rightarrow> Meteor list \<times> Meteor list" where
  "spritecollide collided sprite grp =
     (filter (collided sprite) grp, filter (\<lambda>m. \<not> collided sprite m) grp)"

text \<open>The body of \<^verbatim>\<open>for laser in laser_sprites\<close>.\<close>

definition laser_meteor_collision :: "assets \<Rightarrow> Laser \<Rightarrow> run_state \<Rightarrow> run_state" where
  "laser_meteor_collision a laser s =
     (let hit = spritecollide (collide_mask_laser a) laser (meteor_sprites s);
          meteors_hit = fst hit;
          s1 = s\<lparr>meteor_sprites := snd hit\<rparr>
      in if meteors_hit \<noteq> []
         then s1\<lparr>explosions := explosions s1 @ [AnimatedExplosion_init a (midtop (l_rect laser))],
                 laser_sprites := remove1 laser (laser_sprites s1),
                 score := score s1 + METEOR_DESTRUCTION_POINTS\<rparr>
         else s1)"

definition check_collisions :: "assets \<Rightarrow> run_state \<Rightarrow> run_state" where
  "check_collisions a s =
     (let hit = spritecollide (collide_mask_player a) (player s) (meteor_sprites s);
          s1 = s\<lparr>meteor_sprites := snd hit\<rparr>;
          s2 = (if fst hit \<noteq> [] then s1\<lparr>player := take_damage (player s1)\<rparr> else s1)
      in fold (laser_meteor_collision a) (laser_sprites s2) s2)"


subsection \<open>One iteration of the main loop\<close>

text \<open>
  The event loop of a frame. It returns \<open>Inl b\<close> when \<^verbatim>\<open>run_game\<close> returns \<open>b\<close> from inside
  it (\<open>True\<close>: restart, \<open>False\<close>: quit), and \<open>Inr running\<close> otherwise.
\<close>

fun event_loop :: "bool \<Rightarrow> (key \<Rightarrow> bool) \<Rightarrow> event list \<Rightarrow> bool \<Rightarrow> bool + bool" where
  "event_loop over keys [] run = Inr run"
| "event_loop over keys (e # es) run =
     (let run1 = (if e = QUIT then False else run) in
      if over then
        (if keys K_SPACE then Inl True
         else if keys K_ESCAPE then Inl False
         else event_loop over keys es run1)
      else event_loop over keys es run1)"

definition survival_points :: "int \<Rightarrow> run_state \<Rightarrow> run_state" where
  "survival_points current_time s =
     (if current_time - last_score_update s \<ge> 1000
      then s\<lparr>score := score s + SURVIVAL_POINTS_PER_SECOND, last_score_update := current_time\<rparr>
      else s)"

definition spawn_meteors :: "assets \<Rightarrow> frame_input \<Rightarrow> int \<Rightarrow> run_state \<Rightarrow> run_state" where
  "spawn_meteors a inp current_time s =
     (if current_time - meteor_timer s \<ge> meteor_spawn_rate s
      then (let speed_multiplier = 1 + real_of_int (level s - 1) * (1 / 10)
            in s\<lparr>meteor_sprites := meteor_sprites s @
                     [Meteor_init a speed_multiplier (rand_x inp) (rand_y inp) (rand_drift inp)
                        (rand_rotation_speed inp) (ticks_spawn inp)],
                  meteor_timer := current_time,
                  meteor_spawn_rate := calculate_meteor_spawn_time (level s)\<rparr>)
      else s)"

definition update_player :: "assets \<Rightarrow> frame_input \<Rightarrow> real \<Rightarrow> run_state \<Rightarrow> run_state" where
  "update_player a inp dt s =
     (let pl = Player_update a inp dt (level s) (player s, laser_sprites s)
      in s\<lparr>player := fst pl, laser_sprites := snd pl\<rparr>)"

definition all_sprites_update :: "assets \<Rightarrow> frame_input \<Rightarrow> real \<Rightarrow> run_state \<Rightarrow> run_state" where
  "all_sprites_update a inp dt s =
     s\<lparr>laser_sprites := List.map_filter (Laser_update a dt) (laser_sprites s),
       meteor_sprites := List.map_filter (Meteor_update a dt (ticks_update inp)) (meteor_sprites s),
       explosions := List.map_filter (AnimatedExplosion_update dt) (explosions s)\<rparr>"

definition check_alive :: "run_state \<Rightarrow> run_state" where
  "check_alive s = (if \<not> alive (player s) then s\<lparr>game_over := True\<rparr> else s)"

text \<open>The game logic of a frame, from "Update current level" to "Check if player is still alive".\<close>

definition playing_step :: "assets \<Rightarrow> frame_input \<Rightarrow> run_state \<Rightarrow> run_state" where
  "playing_step a inp s =
     (let dt = real_of_int (tick inp) / 1000;
          current_time = now inp;
          s1 = s\<lparr>level := get_current_level (score s)\<rparr>;
          s2 = survival_points current_time s1;
          s3 = spawn_meteors a inp current_time s2;
          s4 = update_player a inp dt s3;
          s5 = all_sprites_update a inp dt s4;
          s6 = check_collisions a s5
      in check_alive s6)"

datatype loop_result = Returned bool | Running run_state

definition frame :: "assets \<Rightarrow> frame_input \<Rightarrow> run_state \<Rightarrow> loop_result" where
  "frame a inp s =
     (case event_loop (game_over s) (keys_pressed inp) (events inp) (running s) of
        Inl b \<Rightarrow> Returned b
      | Inr run \<Rightarrow>
          (if game_over s then Running (s\<lparr>running := run\<rparr>)
           else Running (playing_step a inp (s\<lparr>running := run\<rparr>))))"

text \<open>
  \<^verbatim>\<open>while running:\<close> over the frames given. \<open>Running s\<close> is a loop that has consumed all
  of them and stands before its next test of \<open>running\<close>.
\<close>

fun run_game_loop :: "assets \<Rightarrow> run_state \<Rightarrow> frame_input list \<Rightarrow> loop_result" where
  "run_game_loop a s [] = Running s"
| "run_game_loop a s (inp # inps) =
     (if \<not> running s then Returned False
      else (case frame a inp s of
              Returned b \<Rightarrow> Returned b
            | Running s' \<Rightarrow> run_game_loop a s' inps))"

text \<open>The states at the frame boundaries of the same loop, the starting state first.\<close>

fun run_trace :: "assets \<Rightarrow> run_state \<Rightarrow> frame_input list \<Rightarrow> run_state list" where
  "run_trace a s [] = [s]"
| "run_trace a s (inp # inps) =
     (if \<not> running s then [s]
      else (case frame a inp s of
              Returned b \<Rightarrow> [s]
            | Running s' \<Rightarrow> s # run_trace a s' inps))"


section \<open>Properties of steps and runs\<close>

text \<open>How often a condition turns from false to true along a list of states.\<close>

fun transitions :: "(run_state \<Rightarrow> bool) \<Rightarrow> run_state list \<Rightarrow> nat" where
  "transitions P (s # s' # rest) = (if \<not> P s \<and> P s' then 1 else 0) + transitions P (s' # rest)"
| "transitions P [s] = 0"
| "transitions P [] = 0"

definition lives_inv :: "run_state \<Rightarrow> bool" where
  "lives_inv s \<longleftrightarrow>
     0 \<le> lives (player s) \<and> lives (player s) \<le> INITIAL_LIVES
     \<and> (alive (player s) \<longleftrightarrow> 0 < lives (player s))
     \<and> (game_over s \<longleftrightarrow> lives (player s) = 0)"

definition lives_step :: "run_state \<Rightarrow> run_state \<Rightarrow> bool" where
  "lives_step s s' \<longleftrightarrow>
     lives (player s') \<le> lives (player s)
     \<and> ((alive (player s) \<and> \<not> alive (player s')) \<longleftrightarrow> (0 < lives (player s) \<and> lives (player s') = 0))
     \<and> ((\<not> game_over s \<and> game_over s') \<longleftrightarrow> (0 < lives (player s) \<and> lives (player s') = 0))
     \<and> (game_over s \<longrightarrow> game_over s')"

text \<open>
  The state a playing frame hands to \<^verbatim>\<open>check_collisions\<close>: the level, the survival points,
  the spawn and the updates of the player and the sprites are done.
\<close>

definition before_collisions :: "assets \<Rightarrow> frame_input \<Rightarrow> run_state \<Rightarrow> run_state" where
  "before_collisions a inp s =
     all_sprites_update a inp (real_of_int (tick inp) / 1000)
       (update_player a inp (real_of_int (tick inp) / 1000)
         (spawn_meteors a inp (now inp)
           (survival_points (now inp) (s\<lparr>level := get_current_level (score s)\<rparr>))))"



text \<open>
  Laser number \<open>i\<close> of the group strikes in a collision pass: it overlaps a meteor that is
  still live when its turn comes, one that neither the player nor an earlier laser overlaps.
\<close>

definition laser_strikes :: "assets \<Rightarrow> run_state \<Rightarrow> nat \<Rightarrow> bool" where
  "laser_strikes a s i \<longleftrightarrow>
     (\<exists>m \<in> set (meteor_sprites s).
         \<not> collide_mask_player a (player s) m
         \<and> (\<forall>j<i. \<not> collide_mask_laser a (laser_sprites s ! j) m)
         \<and> collide_mask_laser a (laser_sprites s ! i) m)"

text \<open>
  The same, laser by laser along the loop: for each laser of the list in turn, whether it
  overlaps one of the meteors that the lasers before it have left.
\<close>

fun loop_strikes :: "(Laser \<Rightarrow> Meteor \<Rightarrow> bool) \<Rightarrow> Laser list \<Rightarrow> Meteor list \<Rightarrow> bool list" where
  "loop_strikes c [] ms = []"
| "loop_strikes c (l # ls) ms =
     (\<exists>m \<in> set ms. c l m) # loop_strikes c ls (filter (\<lambda>m. \<not> c l m) ms)"



section \<open>Concrete inputs\<close>

text \<open>
  Assets whose images are opaque boxes that rotation leaves unchanged in size, so that two
  masks overlap exactly when the rectangles do. The coordinates of the inputs below and of
  the states they lead to are integers and halves, which a 32-bit float holds as they are:
  for them storing is the identity.
\<close>

definition rects_overlap :: "frect \<Rightarrow> frect \<Rightarrow> bool" where
  "rects_overlap r1 r2 \<longleftrightarrow>
     fx r1 < fx r2 + fw r2 \<and> fx r2 < fx r1 + fw r1 \<and> fy r1 < fy r2 + fh r2 \<and> fy r2 < fy r1 + fh r1"

definition box_assets :: assets where
  "box_assets =
     \<lparr>player_surf_size = (100, 80),
      laser_surf_size = (10, 50),
      star_surf_size = (20, 20),
      meteor_surf_size = (100, 80),
      explosion_frame_size = (100, 100),
      rotozoom_size = (\<lambda>angle. (100, 80)),
      collide_mask_player = (\<lambda>p m. rects_overlap (p_rect p) (m_rect m)),
      collide_mask_laser = (\<lambda>l m. rects_overlap (l_rect l) (m_rect m)),
      frect_store = (\<lambda>x. x)\<rparr>"

definition meteor_at :: "real \<Rightarrow> real \<Rightarrow> Meteor" where
  "meteor_at x y =
     \<lparr>m_rect = \<lparr>fx = x, fy = y, fw = 100, fh = 80\<rparr>, m_speed = 500, m_direction = (0, 1),
      rotation_speed = 50, rotation = 0, creation_time = 0\<rparr>"

text \<open>
  A meteor wholly below the 720 pixel high window and still falling; an eighth of a second
  later its top edge is at 800.
\<close>

definition low_meteor :: Meteor where
  "low_meteor = meteor_at 600 (1475 / 2)"

text \<open>
  The new player's rectangle is \<open>(590, 320, 100, 80)\<close>: two meteors overlap it, a third is
  far away.
\<close>

definition player_hit_state :: run_state where
  "player_hit_state =
     (run_game_init box_assets [] 0 0)
       \<lparr>meteor_sprites := [meteor_at 600 300, meteor_at 650 350, meteor_at 100 100]\<rparr>"

text \<open>One laser overlapping two meteors, a third meteor far away, the player out of reach.\<close>

definition hit_laser :: Laser where
  "hit_laser = \<lparr>l_rect = \<lparr>fx = 635, fy = 300, fw = 10, fh = 50\<rparr>, l_speed = 700\<rparr>"

definition laser_hit_state :: run_state where
  "laser_hit_state =
     (run_game_init box_assets [] 0 0)
       \<lparr>player := (Player_init box_assets)\<lparr>p_rect := \<lparr>fx = 590, fy = 600, fw = 100, fh = 80\<rparr>\<rparr>,
        laser_sprites := [hit_laser],
        meteor_sprites := [meteor_at 600 280, meteor_at 620 290, meteor_at 100 100]\<rparr>"

text \<open>
  The same with a second laser behind the first: it overlaps only meteors that the first
  laser overlaps too.
\<close>

definition miss_laser :: Laser where
  "miss_laser = \<lparr>l_rect = \<lparr>fx = 655, fy = 310, fw = 10, fh = 50\<rparr>, l_speed = 700\<rparr>"

definition two_laser_state :: run_state where
  "two_laser_state = laser_hit_state\<lparr>laser_sprites := [hit_laser, miss_laser]\<rparr>"

text \<open>A game-over frame with every key held down and nothing in the event queue.\<close>

definition held_keys_input :: frame_input where
  "held_keys_input =
     \<lparr>tick = 8, now = 5000, events = [], keys_pressed = (\<lambda>k. True), keys_just_pressed = (\<lambda>k. True),
      ticks_shoot = 5000, ticks_timer = 5000, ticks_spawn = 5000, ticks_update = 5000,
      rand_x = 100, rand_y = - 100, rand_drift = 0, rand_rotation_speed = 50\<rparr>"

definition over_state :: run_state where
  "over_state =
     (run_game_init box_assets [] 0 0)
       \<lparr>player := (Player_init box_assets)\<lparr>lives := 0, alive := False\<rparr>, score := 120, game_over := True\<rparr>"

text \<open>
  Frames one second long in which a meteor is spawned above the player and falls onto it
  within the frame; no key is pressed.
\<close>

definition hit_frame :: "int \<Rightarrow> frame_input" where
  "hit_frame t =
     \<lparr>tick = 1000, now = t, events = [], keys_pressed = (\<lambda>k. False), keys_just_pressed = (\<lambda>k. False),
      ticks_shoot = t, ticks_timer = t, ticks_spawn = t, ticks_update = t,
      rand_x = 640, rand_y = - 100, rand_drift = 0, rand_rotation_speed = 50\<rparr>"

definition hit_frames :: "frame_input list" where
  "hit_frames = [hit_frame 1000, hit_frame 2000, hit_frame 3000, hit_frame 4000]"

definition hit_state :: "int \<Rightarrow> int \<Rightarrow> int \<Rightarrow> bool \<Rightarrow> run_state" where
  "hit_state n sc t over =
     \<lparr>player = (Player_init box_assets)\<lparr>lives := n, alive := (0 < n)\<rparr>,
      stars = [], laser_sprites = [], meteor_sprites = [], explosions = [],
      score = sc, level = 1, last_score_update = t, meteor_spawn_rate = 600, meteor_timer = t,
      running = True, game_over = over\<rparr>"

text \<open>
  A state in which the player stands where it started, no laser flies, and every meteor is
  in the column \<open>50 .. 150\<close> with no sideways drift.
\<close>

definition clear_of_player :: "run_state \<Rightarrow> bool" where
  "clear_of_player s \<longleftrightarrow>
     p_rect (player s) = \<lparr>fx = 590, fy = 320, fw = 100, fh = 80\<rparr>
     \<and> laser_sprites s = []
     \<and> (\<forall>m \<in> set (meteor_sprites s).
           fx (m_rect m) = 50 \<and> fw (m_rect m) = 100 \<and> fst (m_direction m) = 0)"

text \<open>
  Frames \<open>d\<close> milliseconds apart, the first at \<open>t + d\<close>, with no key and no event; the
  meteors they spawn fall straight down the left of the window, clear of the player.
\<close>

definition idle_frame :: "int \<Rightarrow> int \<Rightarrow> frame_input" where
  "idle_frame d t =
     \<lparr>tick = d, now = t, events = [], keys_pressed = (\<lambda>k. False), keys_just_pressed = (\<lambda>k. False),
      ticks_shoot = t, ticks_timer = t, ticks_spawn = t, ticks_update = t,
      rand_x = 100, rand_y = - 100, rand_drift = 0, rand_rotation_speed = 50\<rparr>"



section \<open>Facts about the constants\<close>

lemmas game_constants =
  WINDOW_WIDTH_def WINDOW_HEIGHT_def PLAYER_SPEED_def INITIAL_LASER_COOLDOWN_def
  SURVIVAL_POINTS_PER_SECOND_def METEOR_DESTRUCTION_POINTS_def LEVEL_THRESHOLDS_def
  MAX_LEVEL_def BASE_METEOR_SPAWN_RATE_def METEOR_SPAWN_RATE_DECREASE_def
  MIN_METEOR_SPAWN_RATE_def LASER_COOLDOWN_INCREASE_LEVEL_def LASER_COOLDOWN_INCREASE_def
  MAX_LASER_COOLDOWN_def INITIAL_LIVES_def EXPLOSION_FRAME_COUNT_def


section \<open>Level from score\<close>

lemma first_above_enumerate:
  "first_above (enumerate n T) sc =
     (if length (takeWhile (\<lambda>t. \<not> sc < t) T) < length T
      then Some (n + length (takeWhile (\<lambda>t. \<not> sc < t) T)) else None)"
  by (induction T arbitrary: n) auto

lemma level_for_takeWhile: "level_for T sc = length (takeWhile (\<lambda>t. \<not> sc < t) T)"
  using length_takeWhile_le [of "\<lambda>t. \<not> sc < t" T]
  by (simp add: level_for_def first_above_enumerate)

lemma level_for_le_length: "level_for T sc \<le> length T"
  by (simp add: level_for_takeWhile length_takeWhile_le)

lemma level_for_hit: "level_for T sc < length T \<Longrightarrow> sc < T ! level_for T sc"
  using nth_length_takeWhile [of "\<lambda>t. \<not> sc < t" T] by (simp add: level_for_takeWhile)

lemma level_for_before: "j < level_for T sc \<Longrightarrow> \<not> sc < T ! j"
proof -
  let ?W = "takeWhile (\<lambda>t. \<not> sc < t) T"
  assume "j < level_for T sc"
  then have j: "j < length ?W" by (simp add: level_for_takeWhile)
  then have "?W ! j \<in> set ?W" by (rule nth_mem)
  moreover have "?W ! j = T ! j" using j by (rule takeWhile_nth)
  ultimately have "T ! j \<in> set ?W" by simp
  then show ?thesis by (auto dest: set_takeWhileD)
qed

lemma level_for_mono: "sc \<le> sc2 \<Longrightarrow> level_for T sc \<le> level_for T sc2"
  unfolding level_for_takeWhile by (induction T) auto

lemma level_for_least:
  "level_for T sc =
     (if \<exists>i<length T. sc < T ! i then (LEAST i. i < length T \<and> sc < T ! i) else length T)"
proof (cases "\<exists>i<length T. sc < T ! i")
  case True
  then obtain i where i: "i < length T" "sc < T ! i" by blast
  have lt: "level_for T sc < length T"
    using level_for_before [of i T sc] i by (meson leI le_less_trans)
  have "(LEAST i. i < length T \<and> sc < T ! i) = level_for T sc"
  proof (rule Least_equality)
    show "level_for T sc < length T \<and> sc < T ! level_for T sc" using lt level_for_hit by blast
  next
    fix y assume "y < length T \<and> sc < T ! y"
    then show "level_for T sc \<le> y" using level_for_before [of y T sc] by (meson leI)
  qed
  with True show ?thesis by simp
next
  case False
  have "\<not> level_for T sc < length T" using False level_for_hit by blast
  then have "level_for T sc = length T" using level_for_le_length [of T sc] by simp
  with False show ?thesis by auto
qed

lemma level_for_example: 
  "level_for [0, 300, 600] 299 = 1" "level_for [0, 300, 600] 300 = 2"
  "level_for [0, 300, 600] 1000 = 3"
  by (simp_all add: level_for_def)

lemma get_current_level_0: "get_current_level 0 = 1"
  by (simp add: get_current_level_def level_for_def LEVEL_THRESHOLDS_def)

text \<open>
  C1 (as amended). For every score and every threshold list \<open>T\<close> of length \<open>K\<close>, the level
  is the smallest index \<open>i\<close> with \<open>score < T[i]\<close>, and \<open>K\<close> when there is none;
  it is non-decreasing in the score; \<^verbatim>\<open>get_current_level\<close> is this function at the program's
  list and gives 1 at score 0; for thresholds \<open>[0, 300, 600]\<close> the level is 1 at 299,
  2 at 300 and 3, the length of the list, at 1000.
\<close>

theorem get_current_level_smallest_index:
  "level_for T sc =
     (if \<exists>i<length T. sc < T ! i then (LEAST i. i < length T \<and> sc < T ! i) else length T)
   \<and> (sc \<le> sc2 \<longrightarrow> level_for T sc \<le> level_for T sc2)
   \<and> get_current_level sc = int (level_for LEVEL_THRESHOLDS sc)
   \<and> (sc \<le> sc2 \<longrightarrow> get_current_level sc \<le> get_current_level sc2)
   \<and> get_current_level 0 = 1
   \<and> level_for [0, 300, 600] 299 = 1
   \<and> level_for [0, 300, 600] 300 = 2
   \<and> level_for [0, 300, 600] 1000 = 3"
proof -
  have mono: "sc \<le> sc2 \<longrightarrow> level_for T sc \<le> level_for T sc2" for T
    by (simp add: level_for_mono)
  have "sc \<le> sc2 \<longrightarrow> get_current_level sc \<le> get_current_level sc2"
    using mono [of LEVEL_THRESHOLDS] by (simp add: get_current_level_def)
  moreover have "get_current_level sc = int (level_for LEVEL_THRESHOLDS sc)"
    by (simp add: get_current_level_def)
  ultimately show ?thesis
    using level_for_least [of T sc] mono [of T] level_for_example get_current_level_0
    by blast
qed

theorem get_current_level_smallest_index_witness:
  "level_for [0, 300, 600] 299 =
     (LEAST i. i < length [0, 300, 600 :: int] \<and> 299 < [0, 300, 600 :: int] ! i)
   \<and> level_for [0, 300, 600] 299 \<le> level_for [0, 300, 600] 300
   \<and> get_current_level 299 \<le> get_current_level 300"
proof -
  have ex: "\<exists>i<length [0, 300, 600 :: int]. 299 < [0, 300, 600 :: int] ! i"
    by (rule exI [of _ 1]) simp
  have le: "(299 :: int) \<le> 300" by simp
  show ?thesis
    using get_current_level_smallest_index [of "[0, 300, 600]" 299 300] ex le by simp
qed

theorem level_past_the_list_counterexample:
  "level_for [0, 300, 600] 1000 = 3 \<and> level_for [0, 300, 600] 1000 \<noteq> 4"
  by (simp add: level_for_def)


section \<open>Meteor spawn interval\<close>

lemma calculate_meteor_spawn_time_eq:
  "calculate_meteor_spawn_time L =
     max (BASE_METEOR_SPAWN_RATE - L * METEOR_SPAWN_RATE_DECREASE) MIN_METEOR_SPAWN_RATE"
  by (simp add: calculate_meteor_spawn_time_def)

lemma calculate_meteor_spawn_time_antimono:
  "L \<le> L2 \<Longrightarrow> calculate_meteor_spawn_time L2 \<le> calculate_meteor_spawn_time L"
  by (simp add: calculate_meteor_spawn_time_def game_constants)

lemma calculate_meteor_spawn_time_floor:
  "MIN_METEOR_SPAWN_RATE \<le> calculate_meteor_spawn_time L"
  by (simp add: calculate_meteor_spawn_time_def)

text \<open>
  C4. The claim gives the interval at level \<open>L\<close> as
  \<open>max (BASE_METEOR_SPAWN_RATE - (L - 1) * METEOR_SPAWN_RATE_DECREASE) MIN_METEOR_SPAWN_RATE\<close>,
  which is 700 at level 1, the value the source's comment on \<^verbatim>\<open>BASE_METEOR_SPAWN_RATE\<close>
  documents ("at level 1"). The function subtracts \<open>L\<close> steps, not \<open>L - 1\<close>: at level 1,
  the level a run starts with, it returns 600.
\<close>

theorem calculate_meteor_spawn_time_at_level_1:
  "calculate_meteor_spawn_time 1 = 600
   \<and> max (BASE_METEOR_SPAWN_RATE - (1 - 1) * METEOR_SPAWN_RATE_DECREASE) MIN_METEOR_SPAWN_RATE = 700
   \<and> meteor_spawn_rate (run_game_init a star_draws t0 t1) = 600"
  by (simp add: calculate_meteor_spawn_time_def run_game_init_def game_constants)


section \<open>Laser cooldown\<close>

lemma update_laser_cooldown_below:
  "L < LASER_COOLDOWN_INCREASE_LEVEL \<Longrightarrow> update_laser_cooldown p L = p"
  by (simp add: update_laser_cooldown_def)

lemma update_laser_cooldown_from:
  "LASER_COOLDOWN_INCREASE_LEVEL \<le> L \<Longrightarrow>
   laser_cooldown (update_laser_cooldown p L) =
     min (INITIAL_LASER_COOLDOWN + (L - LASER_COOLDOWN_INCREASE_LEVEL + 1) * LASER_COOLDOWN_INCREASE)
         MAX_LASER_COOLDOWN"
  by (simp add: update_laser_cooldown_def Let_def)

lemma laser_cooldown_Player_init: "laser_cooldown (Player_init a) = INITIAL_LASER_COOLDOWN"
  by (simp add: Player_init_def)

lemma fresh_cooldown_cases:
  "laser_cooldown (update_laser_cooldown (Player_init a) L) =
     (if L < 3 then 400 else min (400 + (L - 2) * 100) 800)"
  by (simp add: update_laser_cooldown_def Player_init_def Let_def game_constants)

text \<open>
  C5 (as amended). An update at a level below \<^verbatim>\<open>LASER_COOLDOWN_INCREASE_LEVEL\<close> leaves the
  cooldown as it is, so a new player's cooldown stays \<^verbatim>\<open>INITIAL_LASER_COOLDOWN\<close> there; from
  that level on the cooldown is
  \<open>min (INITIAL_LASER_COOLDOWN + (L - LASER_COOLDOWN_INCREASE_LEVEL + 1) * LASER_COOLDOWN_INCREASE)
  MAX_LASER_COOLDOWN\<close>. As a function of the level it is non-decreasing, strictly increasing
  from the threshold level up to the level at which the uncapped value reaches
  \<^verbatim>\<open>MAX_LASER_COOLDOWN\<close>, and never above \<^verbatim>\<open>MAX_LASER_COOLDOWN\<close>.
\<close>

theorem update_laser_cooldown_by_level:
  "(L < LASER_COOLDOWN_INCREASE_LEVEL \<longrightarrow>
      laser_cooldown (update_laser_cooldown p L) = laser_cooldown p
      \<and> laser_cooldown (update_laser_cooldown (Player_init a) L) = INITIAL_LASER_COOLDOWN)
   \<and> (LASER_COOLDOWN_INCREASE_LEVEL \<le> L \<longrightarrow>
      laser_cooldown (update_laser_cooldown p L) =
        min (INITIAL_LASER_COOLDOWN + (L - LASER_COOLDOWN_INCREASE_LEVEL + 1) * LASER_COOLDOWN_INCREASE)
            MAX_LASER_COOLDOWN)
   \<and> (L \<le> L2 \<longrightarrow>
      laser_cooldown (update_laser_cooldown (Player_init a) L)
        \<le> laser_cooldown (update_laser_cooldown (Player_init a) L2))
   \<and> (LASER_COOLDOWN_INCREASE_LEVEL \<le> L \<and> L < L2
        \<and> INITIAL_LASER_COOLDOWN + (L2 - LASER_COOLDOWN_INCREASE_LEVEL + 1) * LASER_COOLDOWN_INCREASE
            \<le> MAX_LASER_COOLDOWN \<longrightarrow>
      laser_cooldown (update_laser_cooldown (Player_init a) L)
        < laser_cooldown (update_laser_cooldown (Player_init a) L2))
   \<and> laser_cooldown (update_laser_cooldown (Player_init a) L) \<le> MAX_LASER_COOLDOWN"
proof -
  have below: "L < LASER_COOLDOWN_INCREASE_LEVEL \<longrightarrow>
      laser_cooldown (update_laser_cooldown p L) = laser_cooldown p
      \<and> laser_cooldown (update_laser_cooldown (Player_init a) L) = INITIAL_LASER_COOLDOWN"
    by (simp add: update_laser_cooldown_below laser_cooldown_Player_init)
  have "from": "LASER_COOLDOWN_INCREASE_LEVEL \<le> L \<longrightarrow>
      laser_cooldown (update_laser_cooldown p L) =
        min (INITIAL_LASER_COOLDOWN + (L - LASER_COOLDOWN_INCREASE_LEVEL + 1) * LASER_COOLDOWN_INCREASE)
            MAX_LASER_COOLDOWN"
    by (simp add: update_laser_cooldown_from)
  have mono: "L \<le> L2 \<longrightarrow>
      laser_cooldown (update_laser_cooldown (Player_init a) L)
        \<le> laser_cooldown (update_laser_cooldown (Player_init a) L2)"
    by (simp add: fresh_cooldown_cases min_def)
  have strict: "LASER_COOLDOWN_INCREASE_LEVEL \<le> L \<and> L < L2
        \<and> INITIAL_LASER_COOLDOWN + (L2 - LASER_COOLDOWN_INCREASE_LEVEL + 1) * LASER_COOLDOWN_INCREASE
            \<le> MAX_LASER_COOLDOWN \<longrightarrow>
      laser_cooldown (update_laser_cooldown (Player_init a) L)
        < laser_cooldown (update_laser_cooldown (Player_init a) L2)"
    by (simp add: fresh_cooldown_cases) (simp add: game_constants)
  have cap: "laser_cooldown (update_laser_cooldown (Player_init a) L) \<le> MAX_LASER_COOLDOWN"
    by (simp add: fresh_cooldown_cases) (simp add: game_constants)
  from below "from" mono strict cap show ?thesis by blast
qed

theorem update_laser_cooldown_by_level_witness:
  "laser_cooldown (update_laser_cooldown (Player_init box_assets) 2) = 400
   \<and> laser_cooldown (update_laser_cooldown (Player_init box_assets) 3) = 500
   \<and> laser_cooldown (update_laser_cooldown (Player_init box_assets) 3)
       < laser_cooldown (update_laser_cooldown (Player_init box_assets) 6)
   \<and> laser_cooldown (update_laser_cooldown (Player_init box_assets) 6)
       \<le> laser_cooldown (update_laser_cooldown (Player_init box_assets) 7)"
  using update_laser_cooldown_by_level [of 2 "Player_init box_assets" box_assets 3]
    update_laser_cooldown_by_level [of 3 "Player_init box_assets" box_assets 6]
    update_laser_cooldown_by_level [of 6 "Player_init box_assets" box_assets 7]
  by (simp add: game_constants)

theorem laser_cooldown_saturates_counterexample:
  "laser_cooldown (update_laser_cooldown (Player_init box_assets) 6) = 800
   \<and> laser_cooldown (update_laser_cooldown (Player_init box_assets) 7) = 800
   \<and> \<not> laser_cooldown (update_laser_cooldown (Player_init box_assets) 6)
         < laser_cooldown (update_laser_cooldown (Player_init box_assets) 7)"
  by (simp add: fresh_cooldown_cases)


section \<open>Meteors\<close>

lemma Meteor_moved_fields:
  "creation_time (Meteor_moved a dt m) = creation_time m"
  "fy (m_rect (Meteor_moved a dt m)) =
     frect_store a
       (frect_store a (centery (m_rect m) + snd (m_direction m) * m_speed m * dt - fh (m_rect m) / 2)
          + fh (m_rect m) / 2
          - real_of_int (snd (rotozoom_size a (rotation m + real_of_int (rotation_speed m) * dt))) / 2)"
  by (simp_all add: Meteor_moved_def Let_def center_def centery_def set_center_def get_frect_center_def)

lemma Meteor_update_cases:
  "Meteor_update a dt t m =
     (if 5000 \<le> t - creation_time m
         \<or> real_of_int (WINDOW_HEIGHT + 100) < fy (m_rect (Meteor_moved a dt m))
      then None else Some (Meteor_moved a dt m))"
  by (simp add: Meteor_update_def Let_def Meteor_moved_fields(1))

text \<open>
  C7 (as amended). A meteor never survives an update once its age since \<^verbatim>\<open>creation_time\<close> is
  at least 5000 ms, wherever it is; and it never survives an update that leaves the top edge
  of its rectangle more than 100 pixels below the bottom of the window
  (\<^verbatim>\<open>rect.top > WINDOW_HEIGHT + 100\<close>). In every other case it survives, moved and rotated:
  a meteor younger than 5000 ms whose top edge is below the window but no more than 100
  pixels below it is kept. The top edge tested is the one the rectangle holds after the
  move: the moved centre, stored, less half the height of the rotated image, stored.
\<close>

theorem Meteor_update_lifetime:
  "(5000 \<le> t - creation_time m \<longrightarrow> Meteor_update a dt t m = None)
   \<and> (real_of_int (WINDOW_HEIGHT + 100) < fy (m_rect (Meteor_moved a dt m)) \<longrightarrow>
        Meteor_update a dt t m = None)
   \<and> (t - creation_time m < 5000
        \<and> fy (m_rect (Meteor_moved a dt m)) \<le> real_of_int (WINDOW_HEIGHT + 100) \<longrightarrow>
        Meteor_update a dt t m = Some (Meteor_moved a dt m))
   \<and> fy (m_rect (Meteor_moved a dt m)) =
        frect_store a
          (frect_store a (centery (m_rect m) + snd (m_direction m) * m_speed m * dt - fh (m_rect m) / 2)
             + fh (m_rect m) / 2
             - real_of_int (snd (rotozoom_size a (rotation m + real_of_int (rotation_speed m) * dt))) / 2)
   \<and> creation_time (Meteor_moved a dt m) = creation_time m"
  by (simp add: Meteor_update_cases Meteor_moved_fields)

lemma box_moved_top:
  "fy (m_rect (Meteor_moved box_assets dt (meteor_at x y))) = y + 500 * dt"
  by (simp add: Meteor_moved_fields meteor_at_def box_assets_def centery_def)

theorem Meteor_update_lifetime_witness:
  "Meteor_update box_assets (1 / 8) 5000 (meteor_at 600 300) = None
   \<and> Meteor_update box_assets 1 3000 (meteor_at 600 700) = None
   \<and> Meteor_update box_assets (1 / 8) 1640 low_meteor = Some (Meteor_moved box_assets (1 / 8) low_meteor)
   \<and> fy (m_rect (Meteor_moved box_assets (1 / 8) low_meteor)) = 800"
proof -
  have old: "5000 \<le> 5000 - creation_time (meteor_at 600 300)"
    by (simp add: meteor_at_def)
  have far: "real_of_int (WINDOW_HEIGHT + 100) < fy (m_rect (Meteor_moved box_assets 1 (meteor_at 600 700)))"
    by (simp add: box_moved_top game_constants)
  have young: "1640 - creation_time low_meteor < 5000"
    by (simp add: low_meteor_def meteor_at_def)
  have top: "fy (m_rect (Meteor_moved box_assets (1 / 8) low_meteor)) = 800"
    by (simp add: box_moved_top low_meteor_def)
  have near: "fy (m_rect (Meteor_moved box_assets (1 / 8) low_meteor)) \<le> real_of_int (WINDOW_HEIGHT + 100)"
    by (simp add: top game_constants)
  from Meteor_update_lifetime [of 5000 "meteor_at 600 300" box_assets "1 / 8"] old
  have 1: "Meteor_update box_assets (1 / 8) 5000 (meteor_at 600 300) = None" by blast
  from Meteor_update_lifetime [of 3000 "meteor_at 600 700" box_assets 1] far
  have 2: "Meteor_update box_assets 1 3000 (meteor_at 600 700) = None" by blast
  from Meteor_update_lifetime [of 1640 low_meteor box_assets "1 / 8"] young near
  have 3: "Meteor_update box_assets (1 / 8) 1640 low_meteor = Some (Meteor_moved box_assets (1 / 8) low_meteor)"
    by blast
  from 1 2 3 top show ?thesis by (intro conjI)
qed

theorem meteor_below_window_survives_counterexample:
  "real_of_int WINDOW_HEIGHT < fy (m_rect low_meteor)
   \<and> map_option (\<lambda>m. fy (m_rect m)) (Meteor_update box_assets (1 / 8) 1640 low_meteor) = Some 800
   \<and> 1640 - creation_time low_meteor < 5000
   \<and> real_of_int WINDOW_HEIGHT < 800"
  by (simp add: Meteor_update_cases box_moved_top low_meteor_def) (simp add: meteor_at_def game_constants)

lemma Meteor_init_position:
  "fx (m_rect (Meteor_init a k x y drift rot t))
     = frect_store a (real_of_int x - real_of_int (fst (meteor_surf_size a)) / 2)
   \<and> fw (m_rect (Meteor_init a k x y drift rot t)) = real_of_int (fst (meteor_surf_size a))"
  by (simp add: Meteor_init_def get_frect_center_def)

text \<open>
  C9. The claim keeps the whole width of a new meteor on screen. \<^verbatim>\<open>Meteor.__init__\<close> draws
  \<open>x\<close> from \<open>0 .. WINDOW_WIDTH - width\<close>, the range of a left edge that keeps the image on
  screen, but places the rectangle's centre there. With the draw \<open>x = 0\<close> and an image
  100 pixels wide the rectangle starts at \<open>- 50\<close>: its left half is off screen.
\<close>

theorem Meteor_init_left_of_screen:
  "meteor_draws box_assets 0 (- 50) 0 50
   \<and> fw (m_rect (Meteor_init box_assets 1 0 (- 50) 0 50 0)) = 100
   \<and> fx (m_rect (Meteor_init box_assets 1 0 (- 50) 0 50 0)) = - 50
   \<and> fx (m_rect (Meteor_init box_assets 1 0 (- 50) 0 50 0)) < 0"
  by (simp add: Meteor_init_def get_frect_center_def meteor_draws_def randint_def box_assets_def
      game_constants)


section \<open>Collisions\<close>

lemma filter_no_hit: "filter P xs = [] \<Longrightarrow> filter (\<lambda>x. \<not> P x) xs = xs"
  by (induction xs) (auto split: if_splits)

lemma laser_meteor_collision_miss:
  "filter (collide_mask_laser a l) (meteor_sprites s) = [] \<Longrightarrow> laser_meteor_collision a l s = s"
  by (simp add: laser_meteor_collision_def spritecollide_def Let_def filter_no_hit)

lemma laser_meteor_collision_hit:
  assumes "filter (collide_mask_laser a l) (meteor_sprites s) \<noteq> []"
  shows "meteor_sprites (laser_meteor_collision a l s) =
           filter (\<lambda>m. \<not> collide_mask_laser a l m) (meteor_sprites s)"
    and "laser_sprites (laser_meteor_collision a l s) = remove1 l (laser_sprites s)"
    and "explosions (laser_meteor_collision a l s) =
           explosions s @ [AnimatedExplosion_init a (midtop (l_rect l))]"
    and "score (laser_meteor_collision a l s) = score s + METEOR_DESTRUCTION_POINTS"
  using assms by (simp_all add: laser_meteor_collision_def spritecollide_def Let_def)

lemma laser_meteor_collision_fields [simp]:
  "player (laser_meteor_collision a l s) = player s"
  "game_over (laser_meteor_collision a l s) = game_over s"
  "running (laser_meteor_collision a l s) = running s"
  "last_score_update (laser_meteor_collision a l s) = last_score_update s"
  "level (laser_meteor_collision a l s) = level s"
  by (simp_all add: laser_meteor_collision_def Let_def)

lemma laser_meteor_collision_meteors_subset:
  "set (meteor_sprites (laser_meteor_collision a l s)) \<subseteq> set (meteor_sprites s)"
  by (auto simp add: laser_meteor_collision_def spritecollide_def Let_def)

lemma fold_laser_fields [simp]:
  "player (fold (laser_meteor_collision a) ls s) = player s"
  "game_over (fold (laser_meteor_collision a) ls s) = game_over s"
  "running (fold (laser_meteor_collision a) ls s) = running s"
  "last_score_update (fold (laser_meteor_collision a) ls s) = last_score_update s"
  "level (fold (laser_meteor_collision a) ls s) = level s"
  by (induction ls arbitrary: s) simp_all

lemma fold_laser_meteors_subset:
  "set (meteor_sprites (fold (laser_meteor_collision a) ls s)) \<subseteq> set (meteor_sprites s)"
proof (induction ls arbitrary: s)
  case Nil
  show ?case by simp
next
  case (Cons l ls)
  have "set (meteor_sprites (fold (laser_meteor_collision a) ls (laser_meteor_collision a l s)))
          \<subseteq> set (meteor_sprites (laser_meteor_collision a l s))"
    by (rule Cons.IH)
  also have "\<dots> \<subseteq> set (meteor_sprites s)" by (rule laser_meteor_collision_meteors_subset)
  finally show ?case by simp
qed

lemma check_collisions_as_fold:
  "check_collisions a s =
     fold (laser_meteor_collision a) (laser_sprites s)
       (if filter (collide_mask_player a (player s)) (meteor_sprites s) \<noteq> []
        then s\<lparr>meteor_sprites := filter (\<lambda>m. \<not> collide_mask_player a (player s) m) (meteor_sprites s),
               player := take_damage (player s)\<rparr>
        else s\<lparr>meteor_sprites := filter (\<lambda>m. \<not> collide_mask_player a (player s) m) (meteor_sprites s)\<rparr>)"
  by (simp add: check_collisions_def spritecollide_def Let_def)

lemma check_collisions_player:
  "player (check_collisions a s) =
     (if filter (collide_mask_player a (player s)) (meteor_sprites s) \<noteq> []
      then take_damage (player s) else player s)"
  by (simp add: check_collisions_as_fold)

lemma check_collisions_meteors_subset:
  "set (meteor_sprites (check_collisions a s))
     \<subseteq> {m \<in> set (meteor_sprites s). \<not> collide_mask_player a (player s) m}"
proof -
  let ?s2 = "if filter (collide_mask_player a (player s)) (meteor_sprites s) \<noteq> []
        then s\<lparr>meteor_sprites := filter (\<lambda>m. \<not> collide_mask_player a (player s) m) (meteor_sprites s),
               player := take_damage (player s)\<rparr>
        else s\<lparr>meteor_sprites := filter (\<lambda>m. \<not> collide_mask_player a (player s) m) (meteor_sprites s)\<rparr>"
  have "set (meteor_sprites (check_collisions a s)) \<subseteq> set (meteor_sprites ?s2)"
    unfolding check_collisions_as_fold by (rule fold_laser_meteors_subset)
  also have "set (meteor_sprites ?s2) = {m \<in> set (meteor_sprites s). \<not> collide_mask_player a (player s) m}"
    by simp
  finally show ?thesis .
qed

lemma lives_take_damage: "lives (take_damage p) = lives p - 1"
  by (simp add: take_damage_def Let_def)

lemma alive_take_damage: "alive (take_damage p) \<longleftrightarrow> alive p \<and> 1 < lives p"
  by (auto simp add: take_damage_def Let_def)

lemmas collision_eval =
  check_collisions_def laser_meteor_collision_def spritecollide_def Let_def player_hit_state_def
  laser_hit_state_def hit_laser_def meteor_at_def run_game_init_def box_assets_def rects_overlap_def
  Player_init_def get_frect_center_def take_damage_def spawn_stars_def game_constants

subsection \<open>The laser loop as a whole\<close>

lemma length_loop_strikes [simp]: "length (loop_strikes c ls ms) = length ls"
  by (induction ls arbitrary: ms) simp_all

lemma loop_strikes_nth:
  "i < length ls \<Longrightarrow>
     loop_strikes c ls ms ! i \<longleftrightarrow> (\<exists>m \<in> set ms. (\<forall>j<i. \<not> c (ls ! j) m) \<and> c (ls ! i) m)"
proof (induction ls arbitrary: ms i)
  case Nil
  then show ?case by simp
next
  case (Cons l ls)
  show ?case
  proof (cases i)
    case 0
    then show ?thesis by simp
  next
    case (Suc k)
    with Cons.prems have k: "k < length ls" by simp
    have "loop_strikes c (l # ls) ms ! i = loop_strikes c ls (filter (\<lambda>m. \<not> c l m) ms) ! k"
      by (simp add: Suc)
    also have "\<dots> \<longleftrightarrow> (\<exists>m \<in> set (filter (\<lambda>m. \<not> c l m) ms). (\<forall>j<k. \<not> c (ls ! j) m) \<and> c (ls ! k) m)"
      by (rule Cons.IH [OF k])
    also have "\<dots> \<longleftrightarrow> (\<exists>m \<in> set ms. (\<forall>j<Suc k. \<not> c ((l # ls) ! j) m) \<and> c ((l # ls) ! Suc k) m)"
      by (auto simp add: All_less_Suc2)
    finally show ?thesis by (simp add: Suc)
  qed
qed

lemma zip_by_index:
  "length bs = length ls \<Longrightarrow> zip ls bs = map (\<lambda>i. (ls ! i, bs ! i)) [0..<length ls]"
  by (rule nth_equalityI) simp_all

lemma survivors_by_index:
  assumes "length bs = length ls"
  shows "map fst (filter (\<lambda>lb. \<not> snd lb) (zip ls bs))
           = map ((!) ls) (filter (\<lambda>i. \<not> bs ! i) [0..<length ls])"
  by (simp add: zip_by_index [OF assms] filter_map comp_def)

lemma strikers_by_index:
  assumes "length bs = length ls"
  shows "map (\<lambda>lb. f (fst lb)) (filter snd (zip ls bs))
           = map (\<lambda>i. f (ls ! i)) (filter (\<lambda>i. bs ! i) [0..<length ls])"
  by (simp add: zip_by_index [OF assms] filter_map comp_def)

lemma fold_laser_result:
  assumes "laser_sprites s = kept @ ls"
    and "\<forall>k \<in> set kept. \<forall>m \<in> set (meteor_sprites s). \<not> collide_mask_laser a k m"
  shows "laser_sprites (fold (laser_meteor_collision a) ls s) =
           kept @ map fst (filter (\<lambda>lb. \<not> snd lb)
                     (zip ls (loop_strikes (collide_mask_laser a) ls (meteor_sprites s))))
     \<and> explosions (fold (laser_meteor_collision a) ls s) =
           explosions s @ map (\<lambda>lb. AnimatedExplosion_init a (midtop (l_rect (fst lb))))
                     (filter snd (zip ls (loop_strikes (collide_mask_laser a) ls (meteor_sprites s))))
     \<and> score (fold (laser_meteor_collision a) ls s) =
           score s + METEOR_DESTRUCTION_POINTS *
             int (length (filter snd (zip ls (loop_strikes (collide_mask_laser a) ls (meteor_sprites s)))))
     \<and> meteor_sprites (fold (laser_meteor_collision a) ls s) =
           filter (\<lambda>m. \<forall>l \<in> set ls. \<not> collide_mask_laser a l m) (meteor_sprites s)"
  using assms
proof (induction ls arbitrary: s kept)
  case Nil
  then show ?case by simp
next
  case (Cons l ls)
  let ?c = "collide_mask_laser a"
  let ?s1 = "laser_meteor_collision a l s"
  show ?case
  proof (cases "\<exists>m \<in> set (meteor_sprites s). ?c l m")
    case True
    then have ne: "filter (?c l) (meteor_sprites s) \<noteq> []" by (simp add: filter_empty_conv)
    note hit = laser_meteor_collision_hit [OF ne]
    from True Cons.prems(2) have "l \<notin> set kept" by blast
    then have l1: "laser_sprites ?s1 = kept @ ls"
      by (simp add: hit(2) Cons.prems(1) remove1_append)
    have inv1: "\<forall>k \<in> set kept. \<forall>m \<in> set (meteor_sprites ?s1). \<not> ?c k m"
      using Cons.prems(2) by (simp add: hit(1))
    from Cons.IH [OF l1 inv1] True show ?thesis
      by (simp add: hit(1,3,4) algebra_simps)
  next
    case False
    then have e: "filter (?c l) (meteor_sprites s) = []" by (simp add: filter_empty_conv)
    then have s1: "?s1 = s" by (rule laser_meteor_collision_miss)
    have same: "filter (\<lambda>m. \<not> ?c l m) (meteor_sprites s) = meteor_sprites s"
      using e by (rule filter_no_hit)
    have l1: "laser_sprites s = (kept @ [l]) @ ls" using Cons.prems(1) by simp
    have inv1: "\<forall>k \<in> set (kept @ [l]). \<forall>m \<in> set (meteor_sprites s). \<not> ?c k m"
      using Cons.prems(2) False by auto
    have fc: "filter (\<lambda>m. \<not> ?c l m \<and> (\<forall>l \<in> set ls. \<not> ?c l m)) (meteor_sprites s)
                = filter (\<lambda>m. \<forall>l \<in> set ls. \<not> ?c l m) (meteor_sprites s)"
      by (rule filter_cong) (use False in auto)
    from Cons.IH [OF l1 inv1] False show ?thesis
      by (simp add: s1 same fc)
  qed
qed

lemma loop_strikes_is_laser_strikes:
  assumes "i < length (laser_sprites s)"
  shows "loop_strikes (collide_mask_laser a) (laser_sprites s)
           (filter (\<lambda>m. \<not> collide_mask_player a (player s) m) (meteor_sprites s)) ! i
         \<longleftrightarrow> laser_strikes a s i"
  by (auto simp add: loop_strikes_nth [OF assms] laser_strikes_def)

lemma check_collisions_result:
  "meteor_sprites (check_collisions a s) =
      filter (\<lambda>m. \<not> collide_mask_player a (player s) m
                   \<and> (\<forall>l \<in> set (laser_sprites s). \<not> collide_mask_laser a l m))
        (meteor_sprites s)"
  "laser_sprites (check_collisions a s) =
      map ((!) (laser_sprites s))
        (filter (\<lambda>i. \<not> laser_strikes a s i) [0..<length (laser_sprites s)])"
  "explosions (check_collisions a s) =
      explosions s @
        map (\<lambda>i. AnimatedExplosion_init a (midtop (l_rect (laser_sprites s ! i))))
          (filter (laser_strikes a s) [0..<length (laser_sprites s)])"
  "score (check_collisions a s) =
      score s + METEOR_DESTRUCTION_POINTS *
        int (length (filter (laser_strikes a s) [0..<length (laser_sprites s)]))"
proof -
  let ?ms = "filter (\<lambda>m. \<not> collide_mask_player a (player s) m) (meteor_sprites s)"
  let ?s2 = "if filter (collide_mask_player a (player s)) (meteor_sprites s) \<noteq> []
        then s\<lparr>meteor_sprites := ?ms, player := take_damage (player s)\<rparr>
        else s\<lparr>meteor_sprites := ?ms\<rparr>"
  let ?ls = "laser_sprites s"
  let ?bs = "loop_strikes (collide_mask_laser a) ?ls ?ms"
  have f: "laser_sprites ?s2 = [] @ ?ls" "meteor_sprites ?s2 = ?ms" "explosions ?s2 = explosions s"
    "score ?s2 = score s" by simp_all
  have inv: "\<forall>k \<in> set []. \<forall>m \<in> set (meteor_sprites ?s2). \<not> collide_mask_laser a k m" by simp
  note r = fold_laser_result [OF f(1) inv, unfolded f(2,3,4), folded check_collisions_as_fold]
  have len: "length ?bs = length ?ls" by simp
  have idx: "filter (\<lambda>i. ?bs ! i) [0..<length ?ls] = filter (laser_strikes a s) [0..<length ?ls]"
    by (rule filter_cong) (simp_all add: loop_strikes_is_laser_strikes)
  have idx': "filter (\<lambda>i. \<not> ?bs ! i) [0..<length ?ls] = filter (\<lambda>i. \<not> laser_strikes a s i) [0..<length ?ls]"
    by (rule filter_cong) (simp_all add: loop_strikes_is_laser_strikes)
  show "meteor_sprites (check_collisions a s) =
      filter (\<lambda>m. \<not> collide_mask_player a (player s) m
                   \<and> (\<forall>l \<in> set (laser_sprites s). \<not> collide_mask_laser a l m))
        (meteor_sprites s)"
    using r by (simp add: conj_commute)
  show "laser_sprites (check_collisions a s) =
      map ((!) (laser_sprites s))
        (filter (\<lambda>i. \<not> laser_strikes a s i) [0..<length (laser_sprites s)])"
    using r by (simp add: survivors_by_index [OF len] idx')
  show "explosions (check_collisions a s) =
      explosions s @
        map (\<lambda>i. AnimatedExplosion_init a (midtop (l_rect (laser_sprites s ! i))))
          (filter (laser_strikes a s) [0..<length (laser_sprites s)])"
    using r strikers_by_index [OF len, of "\<lambda>l. AnimatedExplosion_init a (midtop (l_rect l))"]
    by (simp add: idx)
  have "length (map (\<lambda>lb. ()) (filter snd (zip ?ls ?bs)))
          = length (map (\<lambda>i. ()) (filter (\<lambda>i. ?bs ! i) [0..<length ?ls]))"
    by (simp only: strikers_by_index [OF len, of "\<lambda>l. ()"])
  then have "length (filter snd (zip ?ls ?bs)) = length (filter (laser_strikes a s) [0..<length ?ls])"
    by (simp only: length_map idx)
  then show "score (check_collisions a s) =
      score s + METEOR_DESTRUCTION_POINTS *
        int (length (filter (laser_strikes a s) [0..<length (laser_sprites s)]))"
    using r by simp
qed

text \<open>
  C2 (as amended). In one collision pass, a laser that intersects one or more live meteors
  destroys every meteor it intersects, is itself destroyed once, spawns exactly one
  explosion at its position and adds \<^verbatim>\<open>METEOR_DESTRUCTION_POINTS\<close> to the score exactly
  once; a laser that intersects none changes nothing. A meteor is live for a laser when
  neither the player nor an earlier laser of the group intersects it. So after the pass the
  meteors left are those that neither the player nor any laser intersects; the lasers left
  are those that struck no live meteor, in their order; the explosions added are one for
  each laser that struck, at its position and in the lasers' order; and the score has grown
  by \<^verbatim>\<open>METEOR_DESTRUCTION_POINTS\<close> for each laser that struck. The last two conjuncts say
  the same of one turn of the loop.
\<close>

theorem laser_meteor_collision_pass:
  "meteor_sprites (check_collisions a s) =
      filter (\<lambda>m. \<not> collide_mask_player a (player s) m
                   \<and> (\<forall>l \<in> set (laser_sprites s). \<not> collide_mask_laser a l m))
        (meteor_sprites s)
   \<and> laser_sprites (check_collisions a s) =
      map ((!) (laser_sprites s))
        (filter (\<lambda>i. \<not> laser_strikes a s i) [0..<length (laser_sprites s)])
   \<and> explosions (check_collisions a s) =
      explosions s @
        map (\<lambda>i. AnimatedExplosion_init a (midtop (l_rect (laser_sprites s ! i))))
          (filter (laser_strikes a s) [0..<length (laser_sprites s)])
   \<and> score (check_collisions a s) =
      score s + METEOR_DESTRUCTION_POINTS *
        int (length (filter (laser_strikes a s) [0..<length (laser_sprites s)]))
   \<and> ((\<exists>m \<in> set (meteor_sprites s). collide_mask_laser a l m) \<longrightarrow>
       meteor_sprites (laser_meteor_collision a l s)
         = filter (\<lambda>m. \<not> collide_mask_laser a l m) (meteor_sprites s)
       \<and> laser_sprites (laser_meteor_collision a l s) = remove1 l (laser_sprites s)
       \<and> explosions (laser_meteor_collision a l s)
         = explosions s @ [AnimatedExplosion_init a (midtop (l_rect l))]
       \<and> score (laser_meteor_collision a l s) = score s + METEOR_DESTRUCTION_POINTS)
   \<and> ((\<forall>m \<in> set (meteor_sprites s). \<not> collide_mask_laser a l m) \<longrightarrow>
       laser_meteor_collision a l s = s)"
proof -
  have hit: "(\<exists>m \<in> set (meteor_sprites s). collide_mask_laser a l m) \<longrightarrow>
       meteor_sprites (laser_meteor_collision a l s)
         = filter (\<lambda>m. \<not> collide_mask_laser a l m) (meteor_sprites s)
       \<and> laser_sprites (laser_meteor_collision a l s) = remove1 l (laser_sprites s)
       \<and> explosions (laser_meteor_collision a l s)
         = explosions s @ [AnimatedExplosion_init a (midtop (l_rect l))]
       \<and> score (laser_meteor_collision a l s) = score s + METEOR_DESTRUCTION_POINTS"
    using laser_meteor_collision_hit [of a l s] by (simp add: filter_empty_conv)
  have miss: "(\<forall>m \<in> set (meteor_sprites s). \<not> collide_mask_laser a l m) \<longrightarrow>
       laser_meteor_collision a l s = s"
    using laser_meteor_collision_miss [of a l s] by (simp add: filter_empty_conv)
  show ?thesis
    by (intro conjI check_collisions_result hit miss)
qed

lemma two_laser_strikes:
  "laser_strikes box_assets two_laser_state 0" "\<not> laser_strikes box_assets two_laser_state (Suc 0)"
  by (simp_all add: laser_strikes_def two_laser_state_def miss_laser_def collision_eval)

theorem laser_meteor_collision_pass_witness:
  "collide_mask_laser box_assets hit_laser (meteor_at 600 280)
   \<and> collide_mask_laser box_assets hit_laser (meteor_at 620 290)
   \<and> collide_mask_laser box_assets miss_laser (meteor_at 620 290)
   \<and> laser_sprites two_laser_state = [hit_laser, miss_laser]
   \<and> meteor_sprites two_laser_state = [meteor_at 600 280, meteor_at 620 290, meteor_at 100 100]
   \<and> meteor_sprites (check_collisions box_assets two_laser_state) = [meteor_at 100 100]
   \<and> laser_sprites (check_collisions box_assets two_laser_state) = [miss_laser]
   \<and> explosions (check_collisions box_assets two_laser_state)
       = [AnimatedExplosion_init box_assets (midtop (l_rect hit_laser))]
   \<and> score (check_collisions box_assets two_laser_state) = 20"
proof -
  have st: "laser_sprites two_laser_state = [hit_laser, miss_laser]"
    "meteor_sprites two_laser_state = [meteor_at 600 280, meteor_at 620 290, meteor_at 100 100]"
    "explosions two_laser_state = []" "score two_laser_state = 0"
    by (simp_all add: two_laser_state_def laser_hit_state_def run_game_init_def)
  have c: "collide_mask_laser box_assets hit_laser (meteor_at 600 280)"
    "collide_mask_laser box_assets hit_laser (meteor_at 620 290)"
    "collide_mask_laser box_assets miss_laser (meteor_at 620 290)"
    "\<not> collide_mask_laser box_assets hit_laser (meteor_at 100 100)"
    "\<not> collide_mask_laser box_assets miss_laser (meteor_at 100 100)"
    by (simp_all add: box_assets_def rects_overlap_def hit_laser_def miss_laser_def meteor_at_def)
  have p: "\<not> collide_mask_player box_assets (player two_laser_state) m"
    if "m \<in> set (meteor_sprites two_laser_state)" for m
    using that by (auto simp add: st(2)) (simp_all add: two_laser_state_def collision_eval)
  have ms: "filter (\<lambda>m. \<not> collide_mask_player box_assets (player two_laser_state) m
                   \<and> (\<forall>l \<in> set (laser_sprites two_laser_state). \<not> collide_mask_laser box_assets l m))
        (meteor_sprites two_laser_state) = [meteor_at 100 100]"
    using p c by (simp add: st)
  have idx: "[0..<length (laser_sprites two_laser_state)] = [0, Suc 0]"
    by (simp add: st)
  show ?thesis
    using laser_meteor_collision_pass [of box_assets two_laser_state hit_laser] c st(1,2)
    unfolding ms idx
    by (simp add: two_laser_strikes st METEOR_DESTRUCTION_POINTS_def)
qed

theorem laser_destroys_two_meteors_counterexample:
  "length (filter (collide_mask_laser box_assets hit_laser) (meteor_sprites laser_hit_state)) = 2
   \<and> laser_sprites laser_hit_state = [hit_laser]
   \<and> meteor_sprites laser_hit_state = [meteor_at 600 280, meteor_at 620 290, meteor_at 100 100]
   \<and> meteor_sprites (check_collisions box_assets laser_hit_state) = [meteor_at 100 100]
   \<and> lives (player (check_collisions box_assets laser_hit_state)) = 3"
  by (simp add: collision_eval)

text \<open>
  C3 (as amended). In one collision pass, every live meteor whose mask intersects the
  player's is destroyed, and the player takes exactly one damage event if at least one
  meteor intersects it, however many do: the player loses one life, not one per meteor.
\<close>

theorem player_meteor_collision_pass:
  "(\<forall>m \<in> set (meteor_sprites (check_collisions a s)).
       m \<in> set (meteor_sprites s) \<and> \<not> collide_mask_player a (player s) m)
   \<and> player (check_collisions a s) =
       (if \<exists>m \<in> set (meteor_sprites s). collide_mask_player a (player s) m
        then take_damage (player s) else player s)
   \<and> lives (player (check_collisions a s)) =
       lives (player s)
         - (if \<exists>m \<in> set (meteor_sprites s). collide_mask_player a (player s) m then 1 else 0)"
proof -
  have "\<forall>m \<in> set (meteor_sprites (check_collisions a s)).
       m \<in> set (meteor_sprites s) \<and> \<not> collide_mask_player a (player s) m"
    using check_collisions_meteors_subset [of a s] by blast
  moreover have "player (check_collisions a s) =
       (if \<exists>m \<in> set (meteor_sprites s). collide_mask_player a (player s) m
        then take_damage (player s) else player s)"
    by (simp add: check_collisions_player filter_empty_conv)
  ultimately show ?thesis by (simp add: lives_take_damage)
qed

theorem player_meteor_collision_pass_witness:
  "meteor_at 100 100 \<in> set (meteor_sprites (check_collisions box_assets player_hit_state))
   \<and> \<not> collide_mask_player box_assets (player player_hit_state) (meteor_at 100 100)
   \<and> collide_mask_player box_assets (player player_hit_state) (meteor_at 600 300)
   \<and> lives (player (check_collisions box_assets player_hit_state)) = 2"
proof -
  have ex: "\<exists>m \<in> set (meteor_sprites player_hit_state).
              collide_mask_player box_assets (player player_hit_state) m"
    by (simp add: collision_eval)
  have far: "meteor_at 100 100 \<in> set (meteor_sprites (check_collisions box_assets player_hit_state))"
    by (simp add: collision_eval)
  have l: "lives (player player_hit_state) = 3"
    by (simp add: collision_eval)
  show ?thesis
    using player_meteor_collision_pass [of box_assets player_hit_state] ex far l
    by (auto simp add: player_hit_state_def meteor_at_def run_game_init_def box_assets_def
        rects_overlap_def Player_init_def get_frect_center_def game_constants)
qed

theorem two_meteors_one_life_counterexample:
  "length (filter (collide_mask_player box_assets (player player_hit_state))
             (meteor_sprites player_hit_state)) = 2
   \<and> lives (player player_hit_state) = 3
   \<and> lives (player (check_collisions box_assets player_hit_state)) = 2
   \<and> lives (player (check_collisions box_assets player_hit_state)) \<noteq> 3 - 2"
  by (simp add: collision_eval)


section \<open>What each part of a frame leaves alone\<close>

lemma survival_points_fields [simp]:
  "player (survival_points t s) = player s"
  "game_over (survival_points t s) = game_over s"
  "running (survival_points t s) = running s"
  "level (survival_points t s) = level s"
  by (simp_all add: survival_points_def)

lemma survival_points_score:
  "score (survival_points t s) =
     score s + (if 1000 \<le> t - last_score_update s then SURVIVAL_POINTS_PER_SECOND else 0)"
  "last_score_update (survival_points t s) =
     (if 1000 \<le> t - last_score_update s then t else last_score_update s)"
  by (simp_all add: survival_points_def)

lemma spawn_meteors_fields [simp]:
  "player (spawn_meteors a inp t s) = player s"
  "game_over (spawn_meteors a inp t s) = game_over s"
  "running (spawn_meteors a inp t s) = running s"
  "score (spawn_meteors a inp t s) = score s"
  "last_score_update (spawn_meteors a inp t s) = last_score_update s"
  "level (spawn_meteors a inp t s) = level s"
  by (simp_all add: spawn_meteors_def Let_def)

lemma Player_update_lives [simp]:
  "lives (fst (Player_update a inp dt L pl)) = lives (fst pl)"
  "alive (fst (Player_update a inp dt L pl)) = alive (fst pl)"
  by (simp_all add: Player_update_def Let_def update_laser_cooldown_def laser_timer_def
      shoot_laser_def Player_move_def Player_input_def)

lemma update_player_fields [simp]:
  "lives (player (update_player a inp dt s)) = lives (player s)"
  "alive (player (update_player a inp dt s)) = alive (player s)"
  "game_over (update_player a inp dt s) = game_over s"
  "running (update_player a inp dt s) = running s"
  "score (update_player a inp dt s) = score s"
  "last_score_update (update_player a inp dt s) = last_score_update s"
  "level (update_player a inp dt s) = level s"
  by (simp_all add: update_player_def Let_def)

lemma all_sprites_update_fields [simp]:
  "player (all_sprites_update a inp dt s) = player s"
  "game_over (all_sprites_update a inp dt s) = game_over s"
  "running (all_sprites_update a inp dt s) = running s"
  "score (all_sprites_update a inp dt s) = score s"
  "last_score_update (all_sprites_update a inp dt s) = last_score_update s"
  "level (all_sprites_update a inp dt s) = level s"
  by (simp_all add: all_sprites_update_def)

lemma check_collisions_fields [simp]:
  "game_over (check_collisions a s) = game_over s"
  "running (check_collisions a s) = running s"
  "last_score_update (check_collisions a s) = last_score_update s"
  "level (check_collisions a s) = level s"
  by (simp_all add: check_collisions_def Let_def)

lemma check_alive_fields [simp]:
  "player (check_alive s) = player s"
  "running (check_alive s) = running s"
  "score (check_alive s) = score s"
  "last_score_update (check_alive s) = last_score_update s"
  "level (check_alive s) = level s"
  "game_over (check_alive s) \<longleftrightarrow> game_over s \<or> \<not> alive (player s)"
  by (simp_all add: check_alive_def)

lemma check_collisions_damage:
  "(lives (player (check_collisions a s)) = lives (player s)
      \<and> alive (player (check_collisions a s)) = alive (player s))
   \<or> (lives (player (check_collisions a s)) = lives (player s) - 1
      \<and> alive (player (check_collisions a s)) = (alive (player s) \<and> 1 < lives (player s)))"
  by (simp add: check_collisions_player lives_take_damage alive_take_damage)

lemma playing_step_control [simp]:
  "running (playing_step a inp s) = running s"
  "game_over (playing_step a inp s) \<longleftrightarrow> game_over s \<or> \<not> alive (player (playing_step a inp s))"
  "level (playing_step a inp s) = get_current_level (score s)"
  by (simp_all add: playing_step_def Let_def)

lemma playing_step_damage:
  "(lives (player (playing_step a inp s)) = lives (player s)
      \<and> alive (player (playing_step a inp s)) = alive (player s))
   \<or> (lives (player (playing_step a inp s)) = lives (player s) - 1
      \<and> alive (player (playing_step a inp s)) = (alive (player s) \<and> 1 < lives (player s)))"
proof -
  let ?s5 = "all_sprites_update a inp (real_of_int (tick inp) / 1000)
     (update_player a inp (real_of_int (tick inp) / 1000)
       (spawn_meteors a inp (now inp)
         (survival_points (now inp) (s\<lparr>level := get_current_level (score s)\<rparr>))))"
  have p: "player (playing_step a inp s) = player (check_collisions a ?s5)"
    by (simp add: playing_step_def Let_def)
  have l: "lives (player ?s5) = lives (player s)" "alive (player ?s5) = alive (player s)"
    by simp_all
  show ?thesis using check_collisions_damage [of a ?s5] unfolding p l .
qed


section \<open>Frames\<close>

lemma event_loop_playing: "event_loop False keys es run = Inr (run \<and> QUIT \<notin> set es)"
  by (induction es arbitrary: run) (auto simp add: Let_def)

lemma frame_game_over_idle:
  "game_over s \<Longrightarrow> events inp = [] \<Longrightarrow> frame a inp s = Running s"
  by (simp add: frame_def)

lemma frame_Running:
  "frame a inp s = Running s' \<Longrightarrow>
     (game_over s \<and> (\<exists>r. s' = s\<lparr>running := r\<rparr>))
     \<or> (\<not> game_over s \<and> (\<exists>r. s' = playing_step a inp (s\<lparr>running := r\<rparr>)))"
  by (auto simp add: frame_def split: sum.splits if_splits)

lemma frame_playing:
  "\<not> game_over s \<Longrightarrow> running s \<Longrightarrow> QUIT \<notin> set (events inp) \<Longrightarrow>
     frame a inp s = Running (playing_step a inp s)"
proof -
  assume a: "\<not> game_over s" "running s" "QUIT \<notin> set (events inp)"
  from a(2) have same: "s\<lparr>running := True\<rparr> = s" by (cases s) simp
  have "frame a inp s = Running (playing_step a inp (s\<lparr>running := True\<rparr>))"
    using a by (simp add: frame_def event_loop_playing)
  then show ?thesis unfolding same .
qed

lemma frame_game_over_keys:
  "game_over s \<Longrightarrow> events inp = e # es \<Longrightarrow>
     frame a inp s =
       (if keys_pressed inp K_SPACE then Returned True
        else if keys_pressed inp K_ESCAPE then Returned False
        else frame a (inp\<lparr>events := es\<rparr>) (s\<lparr>running := running s \<and> e \<noteq> QUIT\<rparr>))"
  by (auto simp add: frame_def Let_def split: sum.splits)

text \<open>
  C10. In a game-over frame whose event queue is empty the keyboard is never read: whatever
  keys are held, the frame returns neither \<open>True\<close> (restart) nor \<open>False\<close> (quit) and leaves
  the state of the run as it was.
\<close>

theorem game_over_frame_without_events:
  "game_over s \<Longrightarrow> events inp = [] \<Longrightarrow> frame a inp s = Running s"
  by (simp add: frame_def)

theorem game_over_frame_without_events_witness:
  "game_over over_state \<and> events held_keys_input = []
   \<and> keys_pressed held_keys_input K_SPACE \<and> keys_pressed held_keys_input K_ESCAPE
   \<and> frame box_assets held_keys_input over_state = Running over_state"
proof -
  have g: "game_over over_state" by (simp add: over_state_def)
  have e: "events held_keys_input = []" by (simp add: held_keys_input_def)
  have k: "keys_pressed held_keys_input K_SPACE" "keys_pressed held_keys_input K_ESCAPE"
    by (simp_all add: held_keys_input_def)
  from game_over_frame_without_events [OF g e, of box_assets] g e k show ?thesis by simp
qed


section \<open>Lives along a run\<close>

lemma lives_inv_init: "lives_inv (run_game_init a star_draws t0 t1)"
  by (simp add: lives_inv_def run_game_init_def Player_init_def game_constants)

lemma frame_lives:
  assumes "frame a inp s = Running s'" and "lives_inv s"
  shows "lives_inv s' \<and> lives_step s s'"
proof -
  from frame_Running [OF assms(1)] show ?thesis
  proof (elim disjE conjE exE)
    fix r assume "game_over s" "s' = s\<lparr>running := r\<rparr>"
    with assms(2) show ?thesis by (simp add: lives_inv_def lives_step_def)
  next
    fix r assume ng: "\<not> game_over s" and s': "s' = playing_step a inp (s\<lparr>running := r\<rparr>)"
    let ?s = "s\<lparr>running := r\<rparr>"
    have go: "game_over s' \<longleftrightarrow> \<not> alive (player s')"
      using ng unfolding s' by simp
    from playing_step_damage [of a inp ?s] assms(2) ng go show ?thesis
      unfolding s' lives_inv_def lives_step_def by auto
  qed
qed

lemma run_trace_nonempty: "run_trace a s inps \<noteq> []"
  by (cases inps) (auto split: loop_result.splits)

lemma hd_run_trace: "hd (run_trace a s inps) = s"
  by (cases inps) (auto split: loop_result.splits)

lemma run_trace_inv:
  "lives_inv s \<Longrightarrow> \<forall>s' \<in> set (run_trace a s inps). lives_inv s'"
proof (induction inps arbitrary: s)
  case Nil
  then show ?case by simp
next
  case (Cons inp inps)
  show ?case
  proof (cases "frame a inp s")
    case (Returned b)
    with Cons.prems show ?thesis by simp
  next
    case (Running s1)
    from frame_lives [OF Running Cons.prems] have "lives_inv s1" by simp
    from Cons.IH [OF this] Cons.prems Running show ?thesis by simp
  qed
qed

lemma run_trace_steps:
  "lives_inv s \<Longrightarrow> Suc i < length (run_trace a s inps) \<Longrightarrow>
     lives_step (run_trace a s inps ! i) (run_trace a s inps ! Suc i)"
proof (induction inps arbitrary: s i)
  case Nil
  then show ?case by simp
next
  case (Cons inp inps)
  show ?case
  proof (cases "running s")
    case False
    with Cons.prems(2) show ?thesis by simp
  next
    case True
    show ?thesis
    proof (cases "frame a inp s")
      case (Returned b)
      with Cons.prems(2) True show ?thesis by simp
    next
      case (Running s1)
      then have tr: "run_trace a s (inp # inps) = s # run_trace a s1 inps" using True by simp
      from frame_lives [OF Running Cons.prems(1)] have s1: "lives_inv s1" "lives_step s s1"
        by simp_all
      show ?thesis
      proof (cases i)
        case 0
        have "run_trace a s1 inps ! 0 = s1"
          using hd_run_trace [of a s1 inps] run_trace_nonempty [of a s1 inps]
          by (simp add: hd_conv_nth)
        with s1(2) 0 show ?thesis unfolding tr by simp
      next
        case (Suc j)
        with Cons.prems(2) have "Suc j < length (run_trace a s1 inps)" unfolding tr by simp
        from Cons.IH [OF s1(1) this] Suc show ?thesis unfolding tr by simp
      qed
    qed
  qed
qed

lemma run_trace_sticky:
  "lives_inv s \<Longrightarrow> game_over s \<Longrightarrow> \<forall>s' \<in> set (run_trace a s inps). game_over s'"
proof (induction inps arbitrary: s)
  case Nil
  then show ?case by simp
next
  case (Cons inp inps)
  show ?case
  proof (cases "frame a inp s")
    case (Returned b)
    with Cons.prems show ?thesis by simp
  next
    case (Running s1)
    from frame_lives [OF Running Cons.prems(1)] Cons.prems(2)
    have "lives_inv s1" "game_over s1" by (simp_all add: lives_step_def)
    from Cons.IH [OF this] Cons.prems Running show ?thesis by simp
  qed
qed

lemma run_trace_transitions:
  "lives_inv s \<Longrightarrow>
   transitions game_over (run_trace a s inps) =
     (if \<not> game_over s \<and> game_over (last (run_trace a s inps)) then 1 else 0)"
proof (induction inps arbitrary: s)
  case Nil
  then show ?case by simp
next
  case (Cons inp inps)
  show ?case
  proof (cases "running s")
    case False
    then show ?thesis by simp
  next
    case True
    show ?thesis
    proof (cases "frame a inp s")
      case (Returned b)
      with True show ?thesis by simp
    next
      case (Running s1)
      then have tr: "run_trace a s (inp # inps) = s # run_trace a s1 inps" using True by simp
      from frame_lives [OF Running Cons.prems(1)] have s1: "lives_inv s1" "lives_step s s1"
        by simp_all
      obtain rest where rest: "run_trace a s1 inps = s1 # rest"
        using hd_run_trace [of a s1 inps] run_trace_nonempty [of a s1 inps]
        by (cases "run_trace a s1 inps") auto
      have ih: "transitions game_over (s1 # rest) =
                  (if \<not> game_over s1 \<and> game_over (last (s1 # rest)) then 1 else 0)"
        using Cons.IH [OF s1(1)] by (simp add: rest)
      have sticky: "game_over s1 \<Longrightarrow> game_over (last (s1 # rest))"
        using run_trace_sticky [OF s1(1), of a inps] by (metis last_in_set list.discI rest)
      have "game_over s \<Longrightarrow> game_over s1" using s1(2) by (simp add: lives_step_def)
      moreover have "last (s # s1 # rest) = last (s1 # rest)" by simp
      ultimately show ?thesis
        using ih sticky unfolding tr rest by (auto simp del: last.simps)
    qed
  qed
qed

lemma transitions_cong:
  "\<forall>s \<in> set tr. P s = Q s \<Longrightarrow> transitions P tr = transitions Q tr"
  by (induction P tr rule: transitions.induct) simp_all


text \<open>
  C6. Along every run of the main loop from the start of \<^verbatim>\<open>run_game\<close>, at every frame
  boundary: the player's lives lie in \<open>0 .. INITIAL_LIVES\<close>, the player is alive exactly when
  lives are positive, and the game is over exactly when lives are 0. From one frame to the
  next lives never increase; \<open>alive\<close> turns false in exactly the frame in which lives reach
  0, and \<open>game_over\<close> turns true in that same frame. Neither happens twice: along the run
  each of the two transitions occurs once if the lives have reached 0 and not at all
  before.
\<close>

theorem lives_and_game_over:
  "(let tr = run_trace a (run_game_init a star_draws t0 t1) inps in
      (\<forall>s \<in> set tr.
          0 \<le> lives (player s) \<and> lives (player s) \<le> INITIAL_LIVES
          \<and> (alive (player s) \<longleftrightarrow> 0 < lives (player s))
          \<and> (game_over s \<longleftrightarrow> lives (player s) = 0))
      \<and> (\<forall>i. Suc i < length tr \<longrightarrow>
            lives (player (tr ! Suc i)) \<le> lives (player (tr ! i))
            \<and> ((alive (player (tr ! i)) \<and> \<not> alive (player (tr ! Suc i)))
                 \<longleftrightarrow> (0 < lives (player (tr ! i)) \<and> lives (player (tr ! Suc i)) = 0))
            \<and> ((\<not> game_over (tr ! i) \<and> game_over (tr ! Suc i))
                 \<longleftrightarrow> (0 < lives (player (tr ! i)) \<and> lives (player (tr ! Suc i)) = 0)))
      \<and> transitions (\<lambda>s. \<not> alive (player s)) tr = (if lives (player (last tr)) = 0 then 1 else 0)
      \<and> transitions game_over tr = (if lives (player (last tr)) = 0 then 1 else 0))"
proof -
  let ?s0 = "run_game_init a star_draws t0 t1"
  let ?tr = "run_trace a ?s0 inps"
  have inv0: "lives_inv ?s0" by (rule lives_inv_init)
  have inv: "\<forall>s \<in> set ?tr. lives_inv s" using run_trace_inv [OF inv0] .
  have states: "\<forall>s \<in> set ?tr.
          0 \<le> lives (player s) \<and> lives (player s) \<le> INITIAL_LIVES
          \<and> (alive (player s) \<longleftrightarrow> 0 < lives (player s))
          \<and> (game_over s \<longleftrightarrow> lives (player s) = 0)"
    using inv by (simp add: lives_inv_def)
  have steps: "\<forall>i. Suc i < length ?tr \<longrightarrow>
            lives (player (?tr ! Suc i)) \<le> lives (player (?tr ! i))
            \<and> ((alive (player (?tr ! i)) \<and> \<not> alive (player (?tr ! Suc i)))
                 \<longleftrightarrow> (0 < lives (player (?tr ! i)) \<and> lives (player (?tr ! Suc i)) = 0))
            \<and> ((\<not> game_over (?tr ! i) \<and> game_over (?tr ! Suc i))
                 \<longleftrightarrow> (0 < lives (player (?tr ! i)) \<and> lives (player (?tr ! Suc i)) = 0))"
  proof (intro allI impI)
    fix i assume "Suc i < length ?tr"
    from run_trace_steps [OF inv0 this]
    show "lives (player (?tr ! Suc i)) \<le> lives (player (?tr ! i))
            \<and> ((alive (player (?tr ! i)) \<and> \<not> alive (player (?tr ! Suc i)))
                 \<longleftrightarrow> (0 < lives (player (?tr ! i)) \<and> lives (player (?tr ! Suc i)) = 0))
            \<and> ((\<not> game_over (?tr ! i) \<and> game_over (?tr ! Suc i))
                 \<longleftrightarrow> (0 < lives (player (?tr ! i)) \<and> lives (player (?tr ! Suc i)) = 0))"
      unfolding lives_step_def by blast
  qed
  have ne: "?tr \<noteq> []" by (rule run_trace_nonempty)
  then have "lives_inv (last ?tr)" using inv by simp
  then have last: "game_over (last ?tr) \<longleftrightarrow> lives (player (last ?tr)) = 0"
    by (simp add: lives_inv_def)
  have "\<not> game_over ?s0" by (simp add: run_game_init_def)
  then have over: "transitions game_over ?tr = (if lives (player (last ?tr)) = 0 then 1 else 0)"
    using run_trace_transitions [OF inv0, of a inps] last by simp
  have "\<forall>s \<in> set ?tr. (\<not> alive (player s)) = game_over s"
  proof
    fix s assume "s \<in> set ?tr"
    with inv have "lives_inv s" by blast
    then have a: "0 \<le> lives (player s)" and b: "alive (player s) = (0 < lives (player s))"
      and c: "game_over s = (lives (player s) = 0)"
      unfolding lives_inv_def by blast+
    show "(\<not> alive (player s)) = game_over s" unfolding b c using a by linarith
  qed
  then have "transitions (\<lambda>s. \<not> alive (player s)) ?tr = transitions game_over ?tr"
    by (rule transitions_cong)
  with over have dead: "transitions (\<lambda>s. \<not> alive (player s)) ?tr
      = (if lives (player (last ?tr)) = 0 then 1 else 0)" by simp
  show ?thesis unfolding Let_def by (intro conjI states steps dead over)
qed

lemma hit_frame_fields [simp]:
  "tick (hit_frame t) = 1000" "now (hit_frame t) = t" "events (hit_frame t) = []"
  "keys_pressed (hit_frame t) = (\<lambda>k. False)" "keys_just_pressed (hit_frame t) = (\<lambda>k. False)"
  "ticks_shoot (hit_frame t) = t" "ticks_timer (hit_frame t) = t" "ticks_spawn (hit_frame t) = t"
  "ticks_update (hit_frame t) = t" "rand_x (hit_frame t) = 640" "rand_y (hit_frame t) = - 100"
  "rand_drift (hit_frame t) = 0" "rand_rotation_speed (hit_frame t) = 50"
  by (simp_all add: hit_frame_def)

lemma Player_update_idle:
  "p_direction p = (0, 0) \<Longrightarrow> 0 \<le> fx (p_rect p) \<Longrightarrow> fx (p_rect p) + fw (p_rect p) \<le> 1280
   \<Longrightarrow> 0 \<le> fy (p_rect p) \<Longrightarrow> fy (p_rect p) + fh (p_rect p) \<le> 720
   \<Longrightarrow> fw (p_rect p) < 1280 \<Longrightarrow> fh (p_rect p) < 720
   \<Longrightarrow> can_shoot p \<Longrightarrow> L < 3 \<Longrightarrow>
   Player_update box_assets (hit_frame t) dt L (p, ls) = (p, ls)"
  by (simp add: Player_update_def Player_input_def Player_move_def shoot_laser_def laser_timer_def
      update_laser_cooldown_def Let_def length_squared_def set_centerx_def set_centery_def centerx_def
      centery_def clamp_ip_def clamp_axis_def box_assets_def game_constants)

lemma get_current_level_1: "0 \<le> sc \<Longrightarrow> sc < 300 \<Longrightarrow> get_current_level sc = 1"
  by (simp add: get_current_level_def level_for_def LEVEL_THRESHOLDS_def)

lemma hit_init: "run_game_init box_assets [] 0 0 = hit_state 3 0 0 False"
  by (simp add: run_game_init_def hit_state_def Player_init_def spawn_stars_def
      calculate_meteor_spawn_time_def game_constants)

lemma hit_step:
  assumes "0 < n" "0 \<le> sc" "sc < 300" "1000 \<le> t - t0"
  shows "playing_step box_assets (hit_frame t) (hit_state n sc t0 False)
           = hit_state (n - 1) (sc + 10) t (n \<le> 1)"
proof -
  let ?s1 = "(hit_state n sc t0 False)\<lparr>level := get_current_level (score (hit_state n sc t0 False))\<rparr>"
  have s1: "?s1 = hit_state n sc t0 False"
    using assms by (simp add: hit_state_def get_current_level_1)
  have s2: "survival_points t (hit_state n sc t0 False) =
              (hit_state n (sc + 10) t False)\<lparr>meteor_timer := t0\<rparr>"
    using assms by (simp add: survival_points_def hit_state_def game_constants)
  let ?m = "\<lparr>m_rect = \<lparr>fx = 590, fy = - 140, fw = 100, fh = 80\<rparr>, m_speed = 500,
             m_direction = (0, 1), rotation_speed = 50, rotation = 0, creation_time = t\<rparr>"
  have s3: "spawn_meteors box_assets (hit_frame t) t ((hit_state n (sc + 10) t False)\<lparr>meteor_timer := t0\<rparr>)
              = (hit_state n (sc + 10) t False)\<lparr>meteor_sprites := [?m]\<rparr>"
    using assms by (simp add: spawn_meteors_def hit_state_def Meteor_init_def get_frect_center_def
        calculate_meteor_spawn_time_def box_assets_def game_constants)
  have s4: "update_player box_assets (hit_frame t) 1 ((hit_state n (sc + 10) t False)\<lparr>meteor_sprites := [?m]\<rparr>)
              = (hit_state n (sc + 10) t False)\<lparr>meteor_sprites := [?m]\<rparr>"
  proof -
    let ?p = "(Player_init box_assets)\<lparr>lives := n, alive := (0 < n)\<rparr>"
    have "Player_update box_assets (hit_frame t) 1 1 (?p, []) = (?p, [])"
      by (rule Player_update_idle)
         (simp_all add: Player_init_def get_frect_center_def box_assets_def game_constants)
    then show ?thesis
      by (simp add: update_player_def Let_def hit_state_def)
  qed
  let ?m' = "\<lparr>m_rect = \<lparr>fx = 590, fy = 360, fw = 100, fh = 80\<rparr>, m_speed = 500,
             m_direction = (0, 1), rotation_speed = 50, rotation = 50, creation_time = t\<rparr>"
  have mu: "Meteor_update box_assets 1 t ?m = Some ?m'"
    by (simp add: Meteor_update_def Meteor_moved_def Let_def center_def centerx_def centery_def
        set_center_def get_frect_center_def box_assets_def game_constants)
  have s5: "all_sprites_update box_assets (hit_frame t) 1 ((hit_state n (sc + 10) t False)\<lparr>meteor_sprites := [?m]\<rparr>)
              = (hit_state n (sc + 10) t False)\<lparr>meteor_sprites := [?m']\<rparr>"
    by (simp add: all_sprites_update_def List.map_filter_def mu) (simp add: hit_state_def)
  have s6: "check_collisions box_assets ((hit_state n (sc + 10) t False)\<lparr>meteor_sprites := [?m']\<rparr>)
              = (hit_state n (sc + 10) t False)\<lparr>player := take_damage (player (hit_state n (sc + 10) t False))\<rparr>"
    by (simp add: check_collisions_def spritecollide_def Let_def hit_state_def rects_overlap_def
        Player_init_def get_frect_center_def box_assets_def game_constants)
  have s7: "check_alive ((hit_state n (sc + 10) t False)\<lparr>player := take_damage (player (hit_state n (sc + 10) t False))\<rparr>)
              = hit_state (n - 1) (sc + 10) t (n \<le> 1)"
    using assms(1) by (auto simp add: check_alive_def hit_state_def take_damage_def Let_def)
  show ?thesis
    unfolding playing_step_def Let_def s1 hit_frame_fields s2 s3
    by (simp add: s4 s5 s6 s7)
qed

lemma hit_frame_playing:
  assumes "0 < n" "0 \<le> sc" "sc < 300" "1000 \<le> t - t0"
  shows "frame box_assets (hit_frame t) (hit_state n sc t0 False)
           = Running (hit_state (n - 1) (sc + 10) t (n \<le> 1))"
proof -
  have "frame box_assets (hit_frame t) (hit_state n sc t0 False)
          = Running (playing_step box_assets (hit_frame t) (hit_state n sc t0 False))"
    by (rule frame_playing) (simp_all add: hit_state_def)
  then show ?thesis by (simp only: hit_step [OF assms])
qed

lemma hit_frame_over:
  "frame box_assets (hit_frame t) (hit_state n sc t0 True) = Running (hit_state n sc t0 True)"
  by (rule frame_game_over_idle) (simp_all add: hit_state_def)

lemma hit_trace:
  "run_trace box_assets (run_game_init box_assets [] 0 0) hit_frames =
     [hit_state 3 0 0 False, hit_state 2 10 1000 False, hit_state 1 20 2000 False,
      hit_state 0 30 3000 True, hit_state 0 30 3000 True]"
proof -
  have r: "running (hit_state n sc t over)" for n sc t over by (simp add: hit_state_def)
  have f1: "frame box_assets (hit_frame 1000) (hit_state 3 0 0 False) = Running (hit_state 2 10 1000 False)"
    using hit_frame_playing [of 3 0 1000 0] by simp
  have f2: "frame box_assets (hit_frame 2000) (hit_state 2 10 1000 False) = Running (hit_state 1 20 2000 False)"
    using hit_frame_playing [of 2 10 2000 1000] by simp
  have f3: "frame box_assets (hit_frame 3000) (hit_state 1 20 2000 False) = Running (hit_state 0 30 3000 True)"
    using hit_frame_playing [of 1 20 3000 2000] by simp
  show ?thesis
    unfolding hit_init hit_frames_def
    by (simp add: r f1 f2 f3 hit_frame_over)
qed

theorem lives_and_game_over_witness:
  "map (\<lambda>s. lives (player s)) (run_trace box_assets (run_game_init box_assets [] 0 0) hit_frames)
     = [3, 2, 1, 0, 0]
   \<and> map game_over (run_trace box_assets (run_game_init box_assets [] 0 0) hit_frames)
     = [False, False, False, True, True]
   \<and> transitions game_over (run_trace box_assets (run_game_init box_assets [] 0 0) hit_frames) = 1
   \<and> transitions (\<lambda>s. \<not> alive (player s))
        (run_trace box_assets (run_game_init box_assets [] 0 0) hit_frames) = 1"
proof -
  have l: "lives (player (hit_state n sc t over)) = n" for n sc t over
    by (simp add: hit_state_def)
  have g: "game_over (hit_state n sc t over) = over" for n sc t over
    by (simp add: hit_state_def)
  show ?thesis
    using lives_and_game_over [of box_assets "[]" 0 0 hit_frames]
    unfolding Let_def hit_trace by (simp add: l g)
qed


section \<open>Survival points\<close>





subsection \<open>Frames without collisions\<close>


lemma before_collisions_fields [simp]:
  "score (before_collisions a inp s) = score (survival_points (now inp) s)"
  "last_score_update (before_collisions a inp s) = last_score_update (survival_points (now inp) s)"
  "alive (player (before_collisions a inp s)) = alive (player s)"
  "lives (player (before_collisions a inp s)) = lives (player s)"
  by (simp_all add: before_collisions_def survival_points_score)








subsection \<open>At most ten points a second\<close>





subsection \<open>Frames at a fixed period\<close>





subsection \<open>A run that stays clear of the player\<close>

lemma idle_frame_fields [simp]:
  "tick (idle_frame d t) = d" "now (idle_frame d t) = t" "events (idle_frame d t) = []"
  "keys_pressed (idle_frame d t) = (\<lambda>k. False)" "keys_just_pressed (idle_frame d t) = (\<lambda>k. False)"
  "ticks_shoot (idle_frame d t) = t" "ticks_timer (idle_frame d t) = t" "ticks_spawn (idle_frame d t) = t"
  "ticks_update (idle_frame d t) = t" "rand_x (idle_frame d t) = 100" "rand_y (idle_frame d t) = - 100"
  "rand_drift (idle_frame d t) = 0" "rand_rotation_speed (idle_frame d t) = 50"
  by (simp_all add: idle_frame_def)

lemma box_assets_fields [simp]:
  "frect_store box_assets = (\<lambda>x. x)" "meteor_surf_size box_assets = (100, 80)"
  "rotozoom_size box_assets = (\<lambda>angle. (100, 80))"
  "collide_mask_player box_assets = (\<lambda>p m. rects_overlap (p_rect p) (m_rect m))"
  by (simp_all add: box_assets_def)






lemma clear_running: "clear_of_player (s\<lparr>running := r\<rparr>) = clear_of_player s"
  by (simp add: clear_of_player_def)






end
